theory Spec2Isabelle
  imports Complex_Main "HOL-Library.Word"
begin

section \<open>Floating-point numbers\<close>

text \<open>
  A Python \<open>float\<close> and a numpy \<open>float64\<close> are IEEE 754 binary64 values: a finite
  number, an infinity or NaN. Arithmetic rounds the exact result to the nearest
  representable number, a tie going to the one with the even significand, and a result
  of magnitude \<open>2 ^ 1024\<close> or more after rounding is an infinity. The two zeros
  are one value here: no operation of the code tells them apart.
\<close>

datatype float64 = Finite real | PosInf | NegInf | NaN

definition pow2 :: "int \<Rightarrow> real" where
  "pow2 e = (if 0 \<le> e then 2 ^ nat e else 1 / 2 ^ nat (- e))"

definition round_half_even :: "real \<Rightarrow> int" where
  "round_half_even q =
     (let f = \<lfloor>q\<rfloor>; r = q - of_int f
      in if r < 1 / 2 then f else if 1 / 2 < r then f + 1 else if even f then f else f + 1)"

text \<open>
  \<open>round_to p emin x\<close> rounds \<open>x\<close> to \<open>p\<close> significant bits, with the spacing of
  the subnormal numbers below \<open>2 ^ emin\<close>.
\<close>

definition round_to :: "nat \<Rightarrow> int \<Rightarrow> real \<Rightarrow> real" where
  "round_to p emin x =
     (if x = 0 then 0
      else (let e = max \<lfloor>log 2 \<bar>x\<bar>\<rfloor> emin - (int p - 1)
            in of_int (round_half_even (x / pow2 e)) * pow2 e))"

definition round_double :: "real \<Rightarrow> float64" where
  "round_double x =
     (let y = round_to 53 (- 1022) x
      in if 2 ^ 1024 \<le> \<bar>y\<bar> then (if 0 < x then PosInf else NegInf) else Finite y)"

text \<open>Rounding to binary32, for values that stay in its range.\<close>

definition round_single :: "real \<Rightarrow> real" where
  "round_single x = round_to 24 (- 126) x"

text \<open>The float that a decimal literal of the source denotes.\<close>

definition literal :: "real \<Rightarrow> float64" where
  "literal x = round_double x"

fun fneg :: "float64 \<Rightarrow> float64" where
  "fneg (Finite a) = Finite (- a)"
| "fneg PosInf = NegInf"
| "fneg NegInf = PosInf"
| "fneg NaN = NaN"

fun fadd :: "float64 \<Rightarrow> float64 \<Rightarrow> float64" where
  "fadd (Finite a) (Finite b) = round_double (a + b)"
| "fadd (Finite a) PosInf = PosInf"
| "fadd (Finite a) NegInf = NegInf"
| "fadd PosInf (Finite b) = PosInf"
| "fadd PosInf PosInf = PosInf"
| "fadd NegInf (Finite b) = NegInf"
| "fadd NegInf NegInf = NegInf"
| "fadd PosInf NegInf = NaN"
| "fadd NegInf PosInf = NaN"
| "fadd NaN y = NaN"
| "fadd x NaN = NaN"

fun fmul :: "float64 \<Rightarrow> float64 \<Rightarrow> float64" where
  "fmul (Finite a) (Finite b) = round_double (a * b)"
| "fmul (Finite a) PosInf = (if a = 0 then NaN else if 0 < a then PosInf else NegInf)"
| "fmul (Finite a) NegInf = (if a = 0 then NaN else if 0 < a then NegInf else PosInf)"
| "fmul PosInf (Finite b) = (if b = 0 then NaN else if 0 < b then PosInf else NegInf)"
| "fmul NegInf (Finite b) = (if b = 0 then NaN else if 0 < b then NegInf else PosInf)"
| "fmul PosInf PosInf = PosInf"
| "fmul PosInf NegInf = NegInf"
| "fmul NegInf PosInf = NegInf"
| "fmul NegInf NegInf = PosInf"
| "fmul NaN y = NaN"
| "fmul x NaN = NaN"

text \<open>\<open>x / 2\<close> and \<open>x > y\<close> on floats; a comparison with NaN is false.\<close>

fun fhalf :: "float64 \<Rightarrow> float64" where
  "fhalf (Finite a) = round_double (a / 2)"
| "fhalf PosInf = PosInf"
| "fhalf NegInf = NegInf"
| "fhalf NaN = NaN"

fun fgt :: "float64 \<Rightarrow> float64 \<Rightarrow> bool" where
  "fgt (Finite a) (Finite b) = (b < a)"
| "fgt (Finite a) NegInf = True"
| "fgt PosInf (Finite b) = True"
| "fgt PosInf NegInf = True"
| "fgt x y = False"

section \<open>Python values and exceptions\<close>

text \<open>
  The values the server receives are decoded JSON: \<open>None\<close>, booleans, integers of
  any size, floats, strings, lists and dictionaries with string keys. An exception is
  a value of type \<open>exn\<close>; a computation that may raise returns \<open>exn + 'a\<close>, with
  \<open>Inl\<close> for the raised exception.
\<close>

datatype exn =
    ValueError string
  | TypeError
  | IndexError
  | KeyError
  | AttributeError
  | OverflowError
  | JSONDecodeError
  | LibraryError

datatype pyval =
    PNone
  | PBool bool
  | PInt int
  | PFloat float64
  | PStr string
  | PList "pyval list"
  | PDict "string \<Rightarrow> pyval option"

definition bind :: "exn + 'a \<Rightarrow> ('a \<Rightarrow> exn + 'b) \<Rightarrow> exn + 'b" where
  "bind m f = (case m of Inl e \<Rightarrow> Inl e | Inr x \<Rightarrow> f x)"

text \<open>\<open>obj.get(key, default)\<close>: only a dictionary has the method.\<close>

definition dict_get :: "(string \<Rightarrow> pyval option) \<Rightarrow> string \<Rightarrow> pyval \<Rightarrow> pyval" where
  "dict_get d key dflt = (case d key of Some v \<Rightarrow> v | None \<Rightarrow> dflt)"

definition py_get :: "pyval \<Rightarrow> string \<Rightarrow> pyval \<Rightarrow> exn + pyval" where
  "py_get obj key dflt =
     (case obj of
        PDict d \<Rightarrow> Inr (dict_get d key dflt)
      | _ \<Rightarrow> Inl AttributeError)"

text \<open>
  \<open>obj[i]\<close> for a literal index \<open>i \<ge> 0\<close>: a list or a string is indexed, a dictionary
  decoded from JSON has string keys only, so an integer key is missing; nothing else
  is subscriptable.
\<close>

definition py_getitem :: "pyval \<Rightarrow> nat \<Rightarrow> exn + pyval" where
  "py_getitem obj i =
     (case obj of
        PList xs \<Rightarrow> if i < length xs then Inr (xs ! i) else Inl IndexError
      | PStr s \<Rightarrow> if i < length s then Inr (PStr [s ! i]) else Inl IndexError
      | PDict d \<Rightarrow> Inl KeyError
      | _ \<Rightarrow> Inl TypeError)"

text \<open>
  \<open>float(n)\<close> for an integer, as arithmetic with a float operand does it: the nearest
  float, or \<open>OverflowError\<close> when that is beyond the largest one.
\<close>

definition float_of_int :: "int \<Rightarrow> exn + float64" where
  "float_of_int n =
     (case round_double (of_int n) of
        Finite y \<Rightarrow> Inr (Finite y)
      | _ \<Rightarrow> Inl OverflowError)"

text \<open>
  \<open>v * n\<close> for an integer literal \<open>n\<close>: integers multiply exactly (\<open>True\<close> and
  \<open>False\<close> count as 1 and 0), a float is multiplied by the float of \<open>n\<close>, strings and
  lists are repeated, \<open>None\<close> and dictionaries raise.
\<close>

definition py_mul :: "pyval \<Rightarrow> nat \<Rightarrow> exn + pyval" where
  "py_mul v n =
     (case v of
        PInt a \<Rightarrow> Inr (PInt (a * int n))
      | PBool b \<Rightarrow> Inr (PInt (of_bool b * int n))
      | PFloat f \<Rightarrow> Inr (PFloat (fmul f (Finite (real n))))
      | PStr s \<Rightarrow> Inr (PStr (concat (replicate n s)))
      | PList xs \<Rightarrow> Inr (PList (concat (replicate n xs)))
      | _ \<Rightarrow> Inl TypeError)"

text \<open>\<open>-v\<close>: defined on numbers only.\<close>

definition py_neg :: "pyval \<Rightarrow> exn + pyval" where
  "py_neg v =
     (case v of
        PInt a \<Rightarrow> Inr (PInt (- a))
      | PBool b \<Rightarrow> Inr (PInt (- of_bool b))
      | PFloat f \<Rightarrow> Inr (PFloat (fneg f))
      | _ \<Rightarrow> Inl TypeError)"

text \<open>
  \<open>v > c\<close> for a float \<open>c\<close>: an integer is compared by its exact value, a float as a
  float, anything else raises \<open>TypeError\<close>.
\<close>

fun int_gt :: "int \<Rightarrow> float64 \<Rightarrow> bool" where
  "int_gt n (Finite b) = (b < of_int n)"
| "int_gt n NegInf = True"
| "int_gt n PosInf = False"
| "int_gt n NaN = False"

definition py_gt :: "pyval \<Rightarrow> float64 \<Rightarrow> exn + bool" where
  "py_gt v c =
     (case v of
        PInt n \<Rightarrow> Inr (int_gt n c)
      | PBool b \<Rightarrow> Inr (int_gt (of_bool b) c)
      | PFloat f \<Rightarrow> Inr (fgt f c)
      | _ \<Rightarrow> Inl TypeError)"

text \<open>\<open>v * c\<close> for a number \<open>v\<close> and a float \<open>c\<close>: an integer is converted first.\<close>

definition py_mul_float :: "pyval \<Rightarrow> float64 \<Rightarrow> exn + float64" where
  "py_mul_float v c =
     (case v of
        PInt n \<Rightarrow> bind (float_of_int n) (\<lambda>f. Inr (fmul f c))
      | PBool b \<Rightarrow> bind (float_of_int (of_bool b)) (\<lambda>f. Inr (fmul f c))
      | PFloat f \<Rightarrow> Inr (fmul f c)
      | _ \<Rightarrow> Inl TypeError)"

text \<open>
  \<open>a + b\<close>: two integers add exactly; with a float among two numbers the integer is
  converted and the floats are added; two strings or two lists are concatenated; every
  other pair raises \<open>TypeError\<close>.
\<close>

definition py_add :: "pyval \<Rightarrow> pyval \<Rightarrow> exn + pyval" where
  "py_add a b =
     (case (a, b) of
        (PInt x, PInt y) \<Rightarrow> Inr (PInt (x + y))
      | (PInt x, PBool y) \<Rightarrow> Inr (PInt (x + of_bool y))
      | (PBool x, PInt y) \<Rightarrow> Inr (PInt (of_bool x + y))
      | (PBool x, PBool y) \<Rightarrow> Inr (PInt (of_bool x + of_bool y))
      | (PInt x, PFloat g) \<Rightarrow> bind (float_of_int x) (\<lambda>f. Inr (PFloat (fadd f g)))
      | (PBool x, PFloat g) \<Rightarrow> bind (float_of_int (of_bool x)) (\<lambda>f. Inr (PFloat (fadd f g)))
      | (PFloat f, PInt y) \<Rightarrow> bind (float_of_int y) (\<lambda>g. Inr (PFloat (fadd f g)))
      | (PFloat f, PBool y) \<Rightarrow> bind (float_of_int (of_bool y)) (\<lambda>g. Inr (PFloat (fadd f g)))
      | (PFloat f, PFloat g) \<Rightarrow> Inr (PFloat (fadd f g))
      | (PStr s, PStr t) \<Rightarrow> Inr (PStr (s @ t))
      | (PList s, PList t) \<Rightarrow> Inr (PList (s @ t))
      | _ \<Rightarrow> Inl TypeError)"

text \<open>
  \<open>v / 2\<close>: the quotient of an integer is the float nearest to the exact quotient, or
  \<open>OverflowError\<close>; a float is halved; anything else raises \<open>TypeError\<close>.
\<close>

definition py_div2 :: "pyval \<Rightarrow> exn + float64" where
  "py_div2 v =
     (case v of
        PInt n \<Rightarrow>
          (case round_double (of_int n / 2) of
             Finite y \<Rightarrow> Inr (Finite y)
           | _ \<Rightarrow> Inl OverflowError)
      | PBool b \<Rightarrow> Inr (round_double (of_bool b / 2))
      | PFloat f \<Rightarrow> Inr (fhalf f)
      | _ \<Rightarrow> Inl TypeError)"

text \<open>
  \<open>int(x)\<close> on a float truncates towards zero; an infinity raises \<open>OverflowError\<close>
  and NaN raises \<open>ValueError\<close>.
\<close>

definition py_int :: "real \<Rightarrow> int" where
  "py_int x = (if 0 \<le> x then \<lfloor>x\<rfloor> else \<lceil>x\<rceil>)"

fun float_int :: "float64 \<Rightarrow> exn + int" where
  "float_int (Finite x) = Inr (py_int x)"
| "float_int PosInf = Inl OverflowError"
| "float_int NegInf = Inl OverflowError"
| "float_int NaN = Inl (ValueError ''cannot convert float NaN to integer'')"

section \<open>Images and the image library\<close>

text \<open>
  An image is a height \<open>\<times>\<close> width \<open>\<times>\<close> channels array of 8-bit values, kept as nested
  lists (rows of pixels of channels).
\<close>

type_synonym image = "8 word list list list"

definition shape :: "image \<Rightarrow> nat \<times> nat" where
  "shape img = (length img, (case img of [] \<Rightarrow> 0 | row # _ \<Rightarrow> length row))"

type_synonym mat23 = "(float64 \<times> float64 \<times> float64) \<times> (float64 \<times> float64 \<times> float64)"

datatype border = BORDER_CONSTANT | BORDER_REPLICATE | BORDER_REFLECT | BORDER_WRAP

text \<open>
  The image operations of OpenCV are parameters of the model: resampling, the affine
  warp and the Gaussian blur, each of which may raise. Their arguments are the ones the
  pipeline passes: source, matrix, output size (width, height) and border mode for the
  warp; source, kernel size and sigma for the blur.
\<close>

record cv2 =
  resize :: "image \<Rightarrow> nat \<times> nat \<Rightarrow> exn + image"
  warpAffine :: "image \<Rightarrow> mat23 \<Rightarrow> nat \<times> nat \<Rightarrow> border \<Rightarrow> exn + image"
  GaussianBlur :: "image \<Rightarrow> int \<times> int \<Rightarrow> real \<Rightarrow> exn + image"

text \<open>
  \<open>cv2.getRotationMatrix2D(center, angle, scale)\<close> is the documented matrix of OpenCV:
  with \<open>\<alpha> = scale \<cdot> cos angle\<close> and \<open>\<beta> = scale \<cdot> sin angle\<close> (the angle in degrees),
  the rows are \<open>(\<alpha>, \<beta>, (1 - \<alpha>) \<cdot> cx - \<beta> \<cdot> cy)\<close> and \<open>(- \<beta>, \<alpha>, \<beta> \<cdot> cx + (1 - \<alpha>) \<cdot> cy)\<close>.
  The entries carry the exact value of these expressions: the rounding inside the
  library is not modelled. The cosine and sine of an angle that is not finite are NaN,
  and so is every entry.
\<close>

definition getRotationMatrix2D :: "real \<times> real \<Rightarrow> float64 \<Rightarrow> real \<Rightarrow> mat23" where
  "getRotationMatrix2D center angle scale =
     (case angle of
        Finite t \<Rightarrow>
          (let a = scale * cos (t * pi / 180);
               b = scale * sin (t * pi / 180);
               cx = fst center;
               cy = snd center
           in ((Finite a, Finite b, Finite ((1 - a) * cx - b * cy)),
               (Finite (- b), Finite a, Finite (b * cx + (1 - a) * cy))))
      | _ \<Rightarrow> ((NaN, NaN, NaN), (NaN, NaN, NaN)))"

text \<open>
  An argument of type \<open>double\<close> at the boundary of the library: a float is passed as
  it is, an integer is converted, and the binding refuses one that is too large.
\<close>

definition cv_double :: "pyval \<Rightarrow> exn + float64" where
  "cv_double v =
     (case v of
        PFloat f \<Rightarrow> Inr f
      | PInt n \<Rightarrow>
          (case round_double (of_int n) of
             Finite y \<Rightarrow> Inr (Finite y)
           | _ \<Rightarrow> Inl LibraryError)
      | _ \<Rightarrow> Inl LibraryError)"

text \<open>
  \<open>x += v\<close> on an element \<open>x\<close> of the matrix: a float is added, an integer is
  converted and added; numpy refuses a string with a \<open>TypeError\<close> and a list (whose
  sum is an array, not an element) with an exception of its own. The sum of two
  finite values is kept exact, as the entries of the matrix are.
\<close>

fun entry_add :: "float64 \<Rightarrow> float64 \<Rightarrow> float64" where
  "entry_add (Finite a) (Finite b) = Finite (a + b)"
| "entry_add x y = fadd x y"

definition np_iadd :: "float64 \<Rightarrow> pyval \<Rightarrow> exn + float64" where
  "np_iadd x v =
     (case v of
        PFloat f \<Rightarrow> Inr (entry_add x f)
      | PInt n \<Rightarrow> bind (float_of_int n) (\<lambda>f. Inr (entry_add x f))
      | PBool b \<Rightarrow> bind (float_of_int (of_bool b)) (\<lambda>f. Inr (entry_add x f))
      | PList xs \<Rightarrow> Inl LibraryError
      | _ \<Rightarrow> Inl TypeError)"

text \<open>
  \<open>np.clip(x, 0, 255)\<close> on a \<open>float64\<close> value, and \<open>astype(np.uint8)\<close> on the
  result: the fraction is dropped. NaN stays NaN through the clipping; its conversion
  is left open by the C standard and gives 0 on the usual platforms.
\<close>

fun np_clip :: "float64 \<Rightarrow> float64" where
  "np_clip (Finite x) = Finite (min 255 (max 0 x))"
| "np_clip PosInf = Finite 255"
| "np_clip NegInf = Finite 0"
| "np_clip NaN = NaN"

fun astype_uint8 :: "float64 \<Rightarrow> 8 word" where
  "astype_uint8 (Finite x) = word_of_int (py_int x)"
| "astype_uint8 x = 0"

section \<open>The pipeline (pipeline.py)\<close>

text \<open>
  The state of a \<open>LivePortraitPipeline\<close> object, restricted to the fields that
  \<open>set_reference\<close> and \<open>inference\<close> read or write. An extractor session is the
  function from its input tensor to its list of outputs, which may raise; \<open>'t\<close> is
  the type of an output tensor.
\<close>

type_synonym tensor = "real list list list list"

record 't LivePortraitPipeline =
  is_ready :: bool
  reference_image :: "image option"
  appearance_extractor :: "(tensor \<Rightarrow> exn + 't list) option"
  motion_extractor :: "(tensor \<Rightarrow> exn + 't list) option"
  source_kp :: "'t option"
  source_rotation :: "'t option"
  generator_input :: "'t option"

subsection \<open>inference\<close>

text \<open>
  Lines 223 to 234: the matrix of the warp. \<open>yaw\<close> and \<open>pitch\<close> are computed first,
  then \<open>-yaw\<close> is the angle of the rotation about \<open>(w // 2, h // 2)\<close>, which the
  library takes as a pair of 32-bit floats, and \<open>pitch * 2\<close> is added to the entry in
  row 1, column 2.
\<close>

definition affine_matrix :: "nat \<Rightarrow> nat \<Rightarrow> pyval \<Rightarrow> exn + mat23" where
  "affine_matrix h w head_rotation =
     (let center = (round_single (real (w div 2)), round_single (real (h div 2))) in
      bind (py_getitem head_rotation 1) (\<lambda>hr1.
      bind (py_mul hr1 30) (\<lambda>yaw.
      bind (py_getitem head_rotation 0) (\<lambda>hr0.
      bind (py_mul hr0 15) (\<lambda>pitch.
      bind (py_neg yaw) (\<lambda>minus_yaw.
      bind (cv_double minus_yaw) (\<lambda>angle.
      (case getRotationMatrix2D center angle 1 of
         (row0, (m10, m11, m12)) \<Rightarrow>
           bind (py_mul pitch 2) (\<lambda>shift.
           bind (np_iadd m12 shift) (\<lambda>m12'.
           Inr (row0, (m10, m11, m12'))))))))))))"

text \<open>Lines 223 to 238: the warp itself, to the size of the source, replicating the border.\<close>

definition head_rotation_warp :: "cv2 \<Rightarrow> image \<Rightarrow> pyval \<Rightarrow> exn + image" where
  "head_rotation_warp cv result head_rotation =
     (case shape result of
        (h, w) \<Rightarrow>
          bind (affine_matrix h w head_rotation) (\<lambda>M.
          warpAffine cv result M (w, h) BORDER_REPLICATE))"

text \<open>
  Lines 242 to 244: \<open>np.clip(result * brightness, 0, 255).astype(np.uint8)\<close>, for
  each value. The product of an 8-bit array and a Python float is a \<open>float64\<close>
  array.
\<close>

definition scale_value :: "float64 \<Rightarrow> 8 word \<Rightarrow> 8 word" where
  "scale_value brightness v =
     astype_uint8 (np_clip (fmul (Finite (real (unat v))) brightness))"

definition mouth_brightness :: "image \<Rightarrow> pyval \<Rightarrow> exn + image" where
  "mouth_brightness result mouth_open =
     bind (py_gt mouth_open (literal 0.1)) (\<lambda>above.
     if above
     then bind (py_mul_float mouth_open (literal 0.05)) (\<lambda>product.
          (let brightness = fadd (Finite 1) product
           in Inr (map (map (map (scale_value brightness))) result)))
     else Inr result)"

text \<open>Line 247: \<open>(eye_blink_left + eye_blink_right) / 2\<close>.\<close>

definition blink_value :: "pyval \<Rightarrow> pyval \<Rightarrow> exn + float64" where
  "blink_value eye_blink_left eye_blink_right =
     bind (py_add eye_blink_left eye_blink_right) py_div2"

text \<open>Lines 249 to 251: the size of the blur kernel.\<close>

definition kernel_size :: "float64 \<Rightarrow> exn + int" where
  "kernel_size blink =
     bind (float_int (fadd (Finite 3) (fmul blink (Finite 2)))) (\<lambda>k.
     Inr (if k mod 2 = 0 then k + 1 else k))"

text \<open>Lines 247 to 252.\<close>

definition eye_blink_blur :: "cv2 \<Rightarrow> image \<Rightarrow> pyval \<Rightarrow> pyval \<Rightarrow> exn + image" where
  "eye_blink_blur cv result eye_blink_left eye_blink_right =
     bind (blink_value eye_blink_left eye_blink_right) (\<lambda>blink.
     if fgt blink (literal 0.5)
     then bind (kernel_size blink) (\<lambda>k. GaussianBlur cv result (k, k) 0)
     else Inr result)"

text \<open>
  The body of \<open>inference\<close> once the reference is known to be set. \<open>smile\<close> is read
  and not used.
\<close>

definition synthesize :: "cv2 \<Rightarrow> image \<Rightarrow> pyval \<Rightarrow> exn + image" where
  "synthesize cv ref motion_params =
     bind (py_get motion_params ''headRotation'' (PList [PInt 0, PInt 0, PInt 0]))
       (\<lambda>head_rotation.
     bind (py_get motion_params ''mouthOpen'' (PInt 0)) (\<lambda>mouth_open.
     bind (py_get motion_params ''eyeBlinkLeft'' (PInt 0)) (\<lambda>eye_blink_left.
     bind (py_get motion_params ''eyeBlinkRight'' (PInt 0)) (\<lambda>eye_blink_right.
     bind (py_get motion_params ''smile'' (PInt 0)) (\<lambda>smile.
     bind (head_rotation_warp cv ref head_rotation) (\<lambda>result.
     bind (mouth_brightness result mouth_open) (\<lambda>result.
     eye_blink_blur cv result eye_blink_left eye_blink_right)))))))"

text \<open>
  \<open>inference\<close> returns its result, or the exception it raises, together with the
  state of the pipeline after the call. Every array operation of the body returns a
  new array (the reference is copied first), so the stored reference is not written.
\<close>

definition inference ::
  "cv2 \<Rightarrow> 't LivePortraitPipeline \<Rightarrow> pyval \<Rightarrow> (exn + image) \<times> 't LivePortraitPipeline" where
  "inference cv self motion_params =
     (case reference_image self of
        None \<Rightarrow> (Inl (ValueError ''Reference image not set''), self)
      | Some ref \<Rightarrow> (synthesize cv ref motion_params, self))"

subsection \<open>set_reference\<close>

text \<open>
  \<open>_preprocess_image\<close>: resize to 256 \<open>\<times>\<close> 256 unless the image has that size already,
  move the channel axis to the front, divide the values by 255 as 32-bit floats and
  add the batch axis.
\<close>

definition channels :: "image \<Rightarrow> nat" where
  "channels img =
     (case img of
        [] \<Rightarrow> 0
      | row # _ \<Rightarrow> (case row of [] \<Rightarrow> 0 | px # _ \<Rightarrow> length px))"

definition preprocess_image :: "cv2 \<Rightarrow> image \<Rightarrow> exn + tensor" where
  "preprocess_image cv img =
     bind (if shape img \<noteq> (256, 256) then resize cv img (256, 256) else Inr img)
       (\<lambda>img.
     Inr [map (\<lambda>c. map (map (\<lambda>px. round_single (real (unat (px ! c)) / 255.0))) img)
            [0 ..< channels img]])"

text \<open>\<open>outputs[i]\<close> on the list of outputs of a session.\<close>

definition output_at :: "'t list \<Rightarrow> nat \<Rightarrow> exn + 't" where
  "output_at outputs i = (if i < length outputs then Inr (outputs ! i) else Inl IndexError)"

text \<open>Lines 133 to 140, the body of the first \<open>try\<close>.\<close>

definition extract_appearance ::
  "cv2 \<Rightarrow> (tensor \<Rightarrow> exn + 't list) \<Rightarrow> 't LivePortraitPipeline \<Rightarrow> image
    \<Rightarrow> exn + 't LivePortraitPipeline" where
  "extract_appearance cv session self img =
     bind (preprocess_image cv img) (\<lambda>input_tensor.
     bind (session input_tensor) (\<lambda>outputs.
     bind (output_at outputs 0) (\<lambda>out0.
     Inr (self\<lparr>generator_input := Some out0\<rparr>))))"

text \<open>Lines 148 to 159, the body of the second \<open>try\<close>.\<close>

definition extract_motion ::
  "cv2 \<Rightarrow> (tensor \<Rightarrow> exn + 't list) \<Rightarrow> 't LivePortraitPipeline \<Rightarrow> image
    \<Rightarrow> exn + 't LivePortraitPipeline" where
  "extract_motion cv session self img =
     bind (preprocess_image cv img) (\<lambda>input_tensor.
     bind (session input_tensor) (\<lambda>outputs.
     Inr (self\<lparr>source_kp := (if length outputs > 0 then Some (outputs ! 0) else None),
               source_rotation := (if length outputs > 1 then Some (outputs ! 1) else None)\<rparr>)))"

text \<open>
  \<open>set_reference\<close>: the copy of the image is stored first; each extraction runs
  inside its own \<open>try\<close>, whose \<open>except Exception\<close> logs the exception and goes on
  with the state as it is. The call returns \<open>None\<close>.
\<close>

definition set_reference ::
  "cv2 \<Rightarrow> 't LivePortraitPipeline \<Rightarrow> image \<Rightarrow> (exn + unit) \<times> 't LivePortraitPipeline" where
  "set_reference cv self img =
     (let self1 = self\<lparr>reference_image := Some img\<rparr>;
          self2 = (case appearance_extractor self1 of
                     None \<Rightarrow> self1
                   | Some session \<Rightarrow>
                       (case extract_appearance cv session self1 img of
                          Inl e \<Rightarrow> self1
                        | Inr self' \<Rightarrow> self'));
          self3 = (case motion_extractor self2 of
                     None \<Rightarrow> self2
                   | Some session \<Rightarrow>
                       (case extract_motion cv session self2 img of
                          Inl e \<Rightarrow> self2
                        | Inr self' \<Rightarrow> self'))
      in (Inr (), self3))"

section \<open>The gateway (server.py)\<close>

text \<open>
  The module-level state of the server: the pipeline (\<open>None\<close> when its construction
  failed), the reference image the server keeps for itself, and the registered
  connections.
\<close>

record 't server =
  pipeline :: "'t LivePortraitPipeline option"
  global_reference_image :: "image option"
  connected_clients :: "nat set"

datatype reply = Frame string | Error exn | Status string | Pong

text \<open>
  Lines 111 to 147, one turn of the loop after \<open>receive_text\<close> has returned.
  \<open>loaded\<close> is the outcome of \<open>json.loads(data)\<close>: the decoded value, or the
  exception raised for a text that is not JSON. \<open>encode\<close> stands for lines 123 to
  126 (the JPEG of the frame, in base64). The result is the list of replies sent in
  this turn, or the exception that leaves the loop.
\<close>

definition websocket_message ::
  "cv2 \<Rightarrow> (image \<Rightarrow> exn + string) \<Rightarrow> 't server \<Rightarrow> exn + pyval
    \<Rightarrow> (exn + reply list) \<times> 't server" where
  "websocket_message cv encode srv loaded =
     (case loaded of
        Inl e \<Rightarrow> (Inl e, srv)
      | Inr message \<Rightarrow>
          (case py_get message ''type'' PNone of
             Inl e \<Rightarrow> (Inl e, srv)
           | Inr ty \<Rightarrow>
               if ty = PStr ''motion''
               then (case py_get message ''params'' (PDict Map.empty) of
                       Inl e \<Rightarrow> (Inl e, srv)
                     | Inr params \<Rightarrow>
                         (case pipeline srv of
                            None \<Rightarrow>
                              (Inr [Status ''Pipeline not ready or reference not loaded''], srv)
                          | Some p \<Rightarrow>
                              if is_ready p \<and> global_reference_image srv \<noteq> None
                              then (case inference cv p params of
                                      (r, p') \<Rightarrow>
                                        (case bind r encode of
                                           Inr image_base64 \<Rightarrow>
                                             (Inr [Frame (''data:image/jpeg;base64,''
                                                          @ image_base64)],
                                              srv\<lparr>pipeline := Some p'\<rparr>)
                                         | Inl e \<Rightarrow>
                                             (Inr [Error e], srv\<lparr>pipeline := Some p'\<rparr>)))
                              else (Inr [Status
                                      ''Pipeline not ready or reference not loaded''], srv)))
               else if ty = PStr ''ping'' then (Inr [Pong], srv)
               else (Inr [], srv)))"

text \<open>
  Lines 107 to 152, the loop. The list holds what \<open>json.loads\<close> makes of each text
  received, in order; after the last one \<open>receive_text\<close> raises
  \<open>WebSocketDisconnect\<close>. An exception that leaves a turn is caught by the outer
  \<open>except Exception\<close>, which logs it: the loop is over and nothing more is read.
\<close>

fun message_loop ::
  "cv2 \<Rightarrow> (image \<Rightarrow> exn + string) \<Rightarrow> 't server \<Rightarrow> (exn + pyval) list
    \<Rightarrow> reply list \<times> 't server" where
  "message_loop cv encode srv [] = ([], srv)"
| "message_loop cv encode srv (loaded # rest) =
     (case websocket_message cv encode srv loaded of
        (Inl e, srv') \<Rightarrow> ([], srv')
      | (Inr replies, srv') \<Rightarrow>
          (case message_loop cv encode srv' rest of
             (later, srv'') \<Rightarrow> (replies @ later, srv'')))"

text \<open>
  \<open>websocket_endpoint\<close>: the connection is registered, the loop runs, and the
  \<open>finally\<close> clause removes the connection however the loop ended.
\<close>

definition websocket_endpoint ::
  "cv2 \<Rightarrow> (image \<Rightarrow> exn + string) \<Rightarrow> 't server \<Rightarrow> nat \<Rightarrow> (exn + pyval) list
    \<Rightarrow> reply list \<times> 't server" where
  "websocket_endpoint cv encode srv websocket received =
     (case message_loop cv encode
             (srv\<lparr>connected_clients := insert websocket (connected_clients srv)\<rparr>) received of
        (replies, srv') \<Rightarrow>
          (replies, srv'\<lparr>connected_clients := connected_clients srv' - {websocket}\<rparr>))"

section \<open>Sequences of calls and concrete inputs\<close>

text \<open>A sequence of \<open>inference\<close> calls on one pipeline, each on the state the last one left.\<close>

fun run_inferences ::
  "cv2 \<Rightarrow> 't LivePortraitPipeline \<Rightarrow> pyval list
    \<Rightarrow> (exn + image) list \<times> 't LivePortraitPipeline" where
  "run_inferences cv self [] = ([], self)"
| "run_inferences cv self (m # ms) =
     (case inference cv self m of
        (r, self') \<Rightarrow>
          (case run_inferences cv self' ms of (rs, self'') \<Rightarrow> (r # rs, self'')))"

text \<open>
  A zero of a motion record is the integer 0 or the float 0.0. \<open>zero_motion\<close> is the
  record with every parameter at the integer zero.
\<close>

definition is_zero :: "pyval \<Rightarrow> bool" where
  "is_zero v = (v = PInt 0 \<or> v = PFloat (Finite 0))"

definition zero_motion :: pyval where
  "zero_motion =
     PDict [''headRotation'' \<mapsto> PList [PInt 0, PInt 0, PInt 0],
            ''mouthOpen'' \<mapsto> PInt 0,
            ''eyeBlinkLeft'' \<mapsto> PInt 0,
            ''eyeBlinkRight'' \<mapsto> PInt 0,
            ''smile'' \<mapsto> PInt 0]"

text \<open>The identity of the affine maps.\<close>

definition identity_matrix :: mat23 where
  "identity_matrix = ((Finite 1, Finite 0, Finite 0), (Finite 0, Finite 1, Finite 0))"

text \<open>The matrix \<open>M\<close> with \<open>s\<close> added to its entry in row 1, column 2.\<close>

definition shifted :: "mat23 \<Rightarrow> float64 \<Rightarrow> mat23" where
  "shifted M s = (case M of (row0, (m10, m11, m12)) \<Rightarrow> (row0, (m10, m11, entry_add m12 s)))"

text \<open>
  The kernel size in the words of the specification: 3 plus the rounded double of the
  blink value, plus one if that is even. It is compared with \<open>kernel_size\<close> below.
\<close>

definition spec_kernel_size :: "real \<Rightarrow> int" where
  "spec_kernel_size blink =
     (let k = 3 + round (blink * 2)
      in if k mod 2 = 0 then k + 1 else k)"

text \<open>
  \<open>__init__\<close>: the pipeline as constructed, with no session loaded. \<open>load_models\<close>
  sets \<open>is_ready\<close> on every path and fills the sessions it finds.
\<close>

definition init :: "'t LivePortraitPipeline" where
  "init =
     \<lparr>is_ready = False, reference_image = None, appearance_extractor = None,
      motion_extractor = None, source_kp = None, source_rotation = None,
      generator_input = None\<rparr>"

text \<open>
  Concrete inputs for evaluating the model. \<open>cv_standin\<close> takes the place of the image
  library: it fills a resized image with the first pixel of the source, warps by the
  identity matrix only, and blurs with an odd positive kernel only, returning the
  source. \<open>jpeg_standin\<close> takes the place of the encoder. \<open>rgb_only outputs\<close> is a
  session that returns \<open>outputs\<close> for a three-channel input and raises for any other.
  \<open>solid px\<close> is the 256 \<open>\<times>\<close> 256 image of the one pixel \<open>px\<close>.
\<close>

definition cv_standin :: cv2 where
  "cv_standin =
     \<lparr>resize = (\<lambda>img (w, h).
                  case img of
                    (px # _) # _ \<Rightarrow> Inr (replicate h (replicate w px))
                  | _ \<Rightarrow> Inl LibraryError),
      warpAffine = (\<lambda>img M dsize b.
                      if M = identity_matrix \<and> dsize = (snd (shape img), fst (shape img))
                      then Inr img else Inl LibraryError),
      GaussianBlur = (\<lambda>img (kw, kh) sigma.
                        if 0 < kw \<and> 0 < kh \<and> kw mod 2 = 1 \<and> kh mod 2 = 1
                        then Inr img else Inl LibraryError)\<rparr>"

text \<open>
  \<open>cv_probe\<close> is a second stand-in, which shows the arguments of a blur: the result
  is the one-pixel image of the two kernel sizes.
\<close>

definition cv_probe :: cv2 where
  "cv_probe =
     \<lparr>resize = (\<lambda>img size. Inr img),
      warpAffine = (\<lambda>img M dsize b. Inr img),
      GaussianBlur = (\<lambda>img (kw, kh) sigma. Inr [[[word_of_int kw, word_of_int kh]]])\<rparr>"

definition jpeg_standin :: "image \<Rightarrow> exn + string" where
  "jpeg_standin img = (if img = [] then Inl LibraryError else Inr ''/9j/'')"

definition rgb_only :: "nat list \<Rightarrow> tensor \<Rightarrow> exn + nat list" where
  "rgb_only outputs t =
     (case t of
        [chw] \<Rightarrow> if length chw = 3 then Inr outputs else Inl LibraryError
      | _ \<Rightarrow> Inl LibraryError)"

definition solid :: "8 word list \<Rightarrow> image" where
  "solid px = replicate 256 (replicate 256 px)"

definition small_image :: image where
  "small_image = [[[1, 2, 3], [4, 5, 6]], [[7, 8, 9], [10, 11, 12]]]"

definition loaded_pipeline :: "nat LivePortraitPipeline" where
  "loaded_pipeline =
     init\<lparr>is_ready := True,
          appearance_extractor := Some (rgb_only [7]),
          motion_extractor := Some (rgb_only [8, 9])\<rparr>"

definition ready_server :: "nat server" where
  "ready_server =
     \<lparr>pipeline = Some (init\<lparr>is_ready := True, reference_image := Some small_image\<rparr>),
      global_reference_image = Some small_image,
      connected_clients = {}\<rparr>"

definition ping_message :: pyval where
  "ping_message = PDict [''type'' \<mapsto> PStr ''ping'']"


text \<open>A pipeline that holds the reference \<open>img\<close> and no session.\<close>

definition with_reference :: "image \<Rightarrow> nat LivePortraitPipeline" where
  "with_reference img = init\<lparr>is_ready := True, reference_image := Some img\<rparr>"

text \<open>
  \<open>cv_expect M\<close> is a third stand-in, which accepts one warp only: the one by the
  matrix \<open>M\<close>, to the size of the source and with the replicating border.
\<close>

definition cv_expect :: "mat23 \<Rightarrow> cv2" where
  "cv_expect M0 =
     \<lparr>resize = (\<lambda>img size. Inr img),
      warpAffine = (\<lambda>img M dsize b.
                      if M = M0 \<and> dsize = (snd (shape img), fst (shape img))
                         \<and> b = BORDER_REPLICATE
                      then Inr img else Inl LibraryError),
      GaussianBlur = (\<lambda>img ksize sigma. Inr img)\<rparr>"

section \<open>Auxiliary facts\<close>

subsection \<open>Rounding\<close>

lemma bind_simps: "bind (Inl e) f = Inl e" "bind (Inr x) f = f x"
  by (simp_all add: bind_def)

lemma pow2_powr: "pow2 e = 2 powr (of_int e)"
  by (simp add: pow2_def powr_int field_simps)

lemma pow2_pos: "0 < pow2 e"
  by (simp add: pow2_powr)

lemma pow2_add: "pow2 (a + b) = pow2 a * pow2 b"
  by (simp add: pow2_powr powr_add)

lemma pow2_mono: "a \<le> b \<Longrightarrow> pow2 a \<le> pow2 b"
  by (simp add: pow2_powr)

lemma floor_log2_eq:
  assumes "pow2 e \<le> \<bar>x\<bar>" and "\<bar>x\<bar> < pow2 (e + 1)"
  shows "\<lfloor>log 2 \<bar>x\<bar>\<rfloor> = e"
proof -
  have "0 < \<bar>x\<bar>" using assms(1) pow2_pos [of e] by linarith
  then show ?thesis
    using assms by (simp add: floor_log_eq_powr_iff pow2_powr)
qed

lemma round_to_eval:
  assumes "pow2 e \<le> \<bar>x\<bar>" and "\<bar>x\<bar> < pow2 (e + 1)" and "emin \<le> e"
  shows "round_to p emin x =
           of_int (round_half_even (x / pow2 (e - (int p - 1)))) * pow2 (e - (int p - 1))"
proof -
  have "0 < \<bar>x\<bar>" using assms(1) pow2_pos [of e] by linarith
  then have "x \<noteq> 0" by simp
  moreover have "max \<lfloor>log 2 \<bar>x\<bar>\<rfloor> emin = e"
    using floor_log2_eq [OF assms(1,2)] assms(3) by simp
  ultimately show ?thesis by (simp add: round_to_def Let_def)
qed

lemma round_double_eval:
  assumes "pow2 e \<le> \<bar>x\<bar>" and "\<bar>x\<bar> < pow2 (e + 1)" and "- 1022 \<le> e"
    and "of_int (round_half_even (x / pow2 (e - 52))) * pow2 (e - 52) = y"
    and "\<bar>y\<bar> < 2 ^ 1024"
  shows "round_double x = Finite y"
proof -
  have "round_to 53 (- 1022) x = y"
    using round_to_eval [OF assms(1,2,3), of 53] assms(4) by simp
  then show ?thesis using assms(5) by (simp add: round_double_def)
qed

lemma round_double_zero [simp]: "round_double 0 = Finite 0"
  by (simp add: round_double_def round_to_def)

lemma round_half_even_cases:
  "round_half_even q = \<lfloor>q\<rfloor> \<or> round_half_even q = \<lfloor>q\<rfloor> + 1"
  by (simp add: round_half_even_def Let_def)

lemma round_half_even_error: "\<bar>of_int (round_half_even q) - q\<bar> \<le> 1 / 2"
proof -
  define f where "f = \<lfloor>q\<rfloor>"
  have b: "of_int f \<le> q" "q < of_int f + 1" unfolding f_def by linarith+
  have "round_half_even q =
          (if q - of_int f < 1 / 2 then f else if 1 / 2 < q - of_int f then f + 1
           else if even f then f else f + 1)"
    by (simp add: round_half_even_def Let_def f_def)
  then show ?thesis using b by (auto simp: abs_if split: if_splits)
qed

lemma round_half_even_of_int [simp]: "round_half_even (of_int n) = n"
  by (simp add: round_half_even_def Let_def)

lemma round_half_even_ge: "of_int n \<le> q \<Longrightarrow> n \<le> round_half_even q"
proof -
  assume "of_int n \<le> q"
  then have "n \<le> \<lfloor>q\<rfloor>" by (simp add: le_floor_iff)
  then show ?thesis using round_half_even_cases [of q] by linarith
qed

lemma round_half_even_le: "q \<le> of_int n \<Longrightarrow> round_half_even q \<le> n"
proof (cases "q = of_int n")
  case True
  then show ?thesis by simp
next
  case False
  assume "q \<le> of_int n"
  with False have "q < of_int n" by simp
  then have "\<lfloor>q\<rfloor> < n" by (simp add: floor_less_iff)
  then show ?thesis using round_half_even_cases [of q] by linarith
qed

lemma literal_0_1: "literal (1 / 10) = Finite (3602879701896397 / 36028797018963968)"
  unfolding literal_def
  by (rule round_double_eval [where e = "- 4"])
     (simp_all add: pow2_def round_half_even_def Let_def)

lemma literal_0_05: "literal (1 / 20) = Finite (3602879701896397 / 72057594037927936)"
  unfolding literal_def
  by (rule round_double_eval [where e = "- 5"])
     (simp_all add: pow2_def round_half_even_def Let_def)

lemma literal_0_5: "literal (1 / 2) = Finite (1 / 2)"
  unfolding literal_def
  by (rule round_double_eval [where e = "- 1"])
     (simp_all add: pow2_def round_half_even_def Let_def)

lemma literal_0_2: "literal (1 / 5) = Finite (3602879701896397 / 18014398509481984)"
  unfolding literal_def
  by (rule round_double_eval [where e = "- 3"])
     (simp_all add: pow2_def round_half_even_def Let_def)

lemma literal_0_8: "literal (4 / 5) = Finite (3602879701896397 / 4503599627370496)"
  unfolding literal_def
  by (rule round_double_eval [where e = "- 1"])
     (simp_all add: pow2_def round_half_even_def Let_def)

lemma literal_1_3: "literal (13 / 10) = Finite (5854679515581645 / 4503599627370496)"
  unfolding literal_def
  by (rule round_double_eval [where e = "0"])
     (simp_all add: pow2_def round_half_even_def Let_def)

lemma exponent_bounds:
  assumes "x \<noteq> 0"
  shows "pow2 \<lfloor>log 2 \<bar>x\<bar>\<rfloor> \<le> \<bar>x\<bar>" and "\<bar>x\<bar> < pow2 (\<lfloor>log 2 \<bar>x\<bar>\<rfloor> + 1)"
proof -
  have "0 < \<bar>x\<bar>" using assms by simp
  then have "2 powr (of_int \<lfloor>log 2 \<bar>x\<bar>\<rfloor>) \<le> \<bar>x\<bar>
      \<and> \<bar>x\<bar> < 2 powr (of_int \<lfloor>log 2 \<bar>x\<bar>\<rfloor> + 1)"
    using floor_log_eq_powr_iff [of "\<bar>x\<bar>" 2 "\<lfloor>log 2 \<bar>x\<bar>\<rfloor>"] by simp
  then show "pow2 \<lfloor>log 2 \<bar>x\<bar>\<rfloor> \<le> \<bar>x\<bar>" and "\<bar>x\<bar> < pow2 (\<lfloor>log 2 \<bar>x\<bar>\<rfloor> + 1)"
    by (simp_all add: pow2_powr)
qed

lemma exponent_less:
  assumes "x \<noteq> 0" and "\<bar>x\<bar> < pow2 m"
  shows "\<lfloor>log 2 \<bar>x\<bar>\<rfloor> < m"
proof (rule ccontr)
  assume "\<not> \<lfloor>log 2 \<bar>x\<bar>\<rfloor> < m"
  then have "pow2 m \<le> pow2 \<lfloor>log 2 \<bar>x\<bar>\<rfloor>" by (simp add: pow2_mono)
  then show False using exponent_bounds(1) [OF assms(1)] assms(2) by linarith
qed

lemma exponent_ge:
  assumes "pow2 m \<le> \<bar>x\<bar>"
  shows "m \<le> \<lfloor>log 2 \<bar>x\<bar>\<rfloor>"
proof (rule ccontr)
  have nz: "x \<noteq> 0" using assms pow2_pos [of m] by auto
  assume "\<not> m \<le> \<lfloor>log 2 \<bar>x\<bar>\<rfloor>"
  then have "pow2 (\<lfloor>log 2 \<bar>x\<bar>\<rfloor> + 1) \<le> pow2 m" by (simp add: pow2_mono)
  then show False using exponent_bounds(2) [OF nz] assms by linarith
qed

lemma pow2_nonpos: "k \<le> 0 \<Longrightarrow> of_int n / pow2 k = of_int (n * 2 ^ nat (- k))"
  by (cases "k = 0") (simp_all add: pow2_def)

lemma scaled_error:
  fixes m q P x :: real
  assumes "0 < P" and "q = x / P" and "\<bar>m - q\<bar> \<le> 1 / 2"
  shows "\<bar>m * P - x\<bar> \<le> P / 2"
proof -
  have x: "x = q * P" using assms(1,2) by simp
  have "m * P - x = (m - q) * P" unfolding x by (simp add: algebra_simps)
  then have "\<bar>m * P - x\<bar> = \<bar>m - q\<bar> * P"
    using assms(1) by (simp add: abs_mult)
  also have "\<dots> \<le> 1 / 2 * P"
    using assms(1,3) by (intro mult_right_mono) simp_all
  finally show ?thesis by simp
qed

lemma round_to_error:
  assumes "x \<noteq> 0"
  shows "\<bar>round_to p emin x - x\<bar> \<le> pow2 (max \<lfloor>log 2 \<bar>x\<bar>\<rfloor> emin - (int p - 1)) / 2"
proof -
  define k where "k = max \<lfloor>log 2 \<bar>x\<bar>\<rfloor> emin - (int p - 1)"
  have r: "round_to p emin x = of_int (round_half_even (x / pow2 k)) * pow2 k"
    using assms by (simp add: round_to_def Let_def k_def)
  have "\<bar>of_int (round_half_even (x / pow2 k)) * pow2 k - x\<bar> \<le> pow2 k / 2"
    by (rule scaled_error [OF pow2_pos refl round_half_even_error])
  then show ?thesis unfolding r k_def .
qed

lemma round_to_ge_int:
  assumes "of_int n \<le> x" and "x \<noteq> 0 \<longrightarrow> max \<lfloor>log 2 \<bar>x\<bar>\<rfloor> emin - (int p - 1) \<le> 0"
  shows "of_int n \<le> round_to p emin x"
proof (cases "x = 0")
  case True
  then show ?thesis using assms(1) by (simp add: round_to_def)
next
  case False
  define k where "k = max \<lfloor>log 2 \<bar>x\<bar>\<rfloor> emin - (int p - 1)"
  have k: "k \<le> 0" using assms(2) False by (simp add: k_def)
  have r: "round_to p emin x = of_int (round_half_even (x / pow2 k)) * pow2 k"
    using False by (simp add: round_to_def Let_def k_def)
  have "of_int n / pow2 k \<le> x / pow2 k"
    using assms(1) pow2_pos [of k] by (simp add: divide_right_mono)
  then have "of_int (n * 2 ^ nat (- k)) \<le> x / pow2 k"
    using pow2_nonpos [OF k, of n] by simp
  then have "n * 2 ^ nat (- k) \<le> round_half_even (x / pow2 k)"
    by (rule round_half_even_ge)
  then have "of_int (n * 2 ^ nat (- k)) \<le> (of_int (round_half_even (x / pow2 k)) :: real)"
    by linarith
  then have "of_int n / pow2 k \<le> of_int (round_half_even (x / pow2 k))"
    using pow2_nonpos [OF k, of n] by simp
  then have "of_int n \<le> of_int (round_half_even (x / pow2 k)) * pow2 k"
    using pow2_pos [of k] by (simp add: pos_divide_le_eq)
  then show ?thesis using r by simp
qed

lemma round_to_le_int:
  assumes "x \<le> of_int n" and "x \<noteq> 0 \<longrightarrow> max \<lfloor>log 2 \<bar>x\<bar>\<rfloor> emin - (int p - 1) \<le> 0"
  shows "round_to p emin x \<le> of_int n"
proof (cases "x = 0")
  case True
  then show ?thesis using assms(1) by (simp add: round_to_def)
next
  case False
  define k where "k = max \<lfloor>log 2 \<bar>x\<bar>\<rfloor> emin - (int p - 1)"
  have k: "k \<le> 0" using assms(2) False by (simp add: k_def)
  have r: "round_to p emin x = of_int (round_half_even (x / pow2 k)) * pow2 k"
    using False by (simp add: round_to_def Let_def k_def)
  have "x / pow2 k \<le> of_int n / pow2 k"
    using assms(1) pow2_pos [of k] by (simp add: divide_right_mono)
  then have "x / pow2 k \<le> of_int (n * 2 ^ nat (- k))"
    using pow2_nonpos [OF k, of n] by simp
  then have "round_half_even (x / pow2 k) \<le> n * 2 ^ nat (- k)"
    by (rule round_half_even_le)
  then have "(of_int (round_half_even (x / pow2 k)) :: real) \<le> of_int (n * 2 ^ nat (- k))"
    by linarith
  then have "of_int (round_half_even (x / pow2 k)) \<le> of_int n / pow2 k"
    using pow2_nonpos [OF k, of n] by simp
  then have "of_int (round_half_even (x / pow2 k)) * pow2 k \<le> of_int n"
    using pow2_pos [of k] by (simp add: pos_le_divide_eq)
  then show ?thesis using r by simp
qed

text \<open>An integer below \<open>2 ^ 53\<close> in magnitude is a float.\<close>

lemma round_to_53_of_int:
  assumes "\<bar>n\<bar> < 2 ^ 53"
  shows "round_to 53 (- 1022) (of_int n) = of_int n"
proof (cases "n = 0")
  case True
  then show ?thesis by (simp add: round_to_def)
next
  case False
  have small: "of_int n \<noteq> (0::real) \<longrightarrow>
      max \<lfloor>log 2 \<bar>of_int n :: real\<bar>\<rfloor> (- 1022) - (int 53 - 1) \<le> 0"
  proof
    assume nz: "of_int n \<noteq> (0::real)"
    have "\<bar>of_int n :: real\<bar> < pow2 53"
      using assms by (simp add: pow2_def)
    then have "\<lfloor>log 2 \<bar>of_int n :: real\<bar>\<rfloor> < 53"
      by (rule exponent_less [OF nz])
    then show "max \<lfloor>log 2 \<bar>of_int n :: real\<bar>\<rfloor> (- 1022) - (int 53 - 1) \<le> 0"
      by simp
  qed
  have "of_int n \<le> round_to 53 (- 1022) (of_int n)"
    by (rule round_to_ge_int [OF _ small]) simp
  moreover have "round_to 53 (- 1022) (of_int n) \<le> of_int n"
    by (rule round_to_le_int [OF _ small]) simp
  ultimately show ?thesis by simp
qed

lemma round_double_of_int:
  assumes "\<bar>n\<bar> < 2 ^ 53"
  shows "round_double (of_int n) = Finite (of_int n)"
proof -
  have "\<bar>of_int n :: real\<bar> < 2 ^ 53"
    using assms by (metis of_int_abs of_int_less_numeral_power_cancel_iff)
  also have "(2::real) ^ 53 < 2 ^ 1024" by simp
  finally have "\<not> 2 ^ 1024 \<le> \<bar>of_int n :: real\<bar>" by simp
  then show ?thesis
    using round_to_53_of_int [OF assms] by (simp add: round_double_def)
qed

subsection \<open>The steps of inference\<close>

lemma float_of_int_zero [simp]: "float_of_int 0 = Inr (Finite 0)"
  by (simp add: float_of_int_def)

lemma synthesize_steps:
  "synthesize cv ref (PDict d) =
     bind (head_rotation_warp cv ref
             (dict_get d ''headRotation'' (PList [PInt 0, PInt 0, PInt 0]))) (\<lambda>warped.
     bind (mouth_brightness warped (dict_get d ''mouthOpen'' (PInt 0))) (\<lambda>frame.
     eye_blink_blur cv frame (dict_get d ''eyeBlinkLeft'' (PInt 0))
       (dict_get d ''eyeBlinkRight'' (PInt 0))))"
  by (simp add: synthesize_def py_get_def bind_simps)

lemma inference_steps:
  assumes "reference_image self = Some ref"
  shows "fst (inference cv self (PDict d)) =
     bind (head_rotation_warp cv ref
             (dict_get d ''headRotation'' (PList [PInt 0, PInt 0, PInt 0]))) (\<lambda>warped.
     bind (mouth_brightness warped (dict_get d ''mouthOpen'' (PInt 0))) (\<lambda>frame.
     eye_blink_blur cv frame (dict_get d ''eyeBlinkLeft'' (PInt 0))
       (dict_get d ''eyeBlinkRight'' (PInt 0))))"
  using assms by (simp add: inference_def synthesize_steps)

lemma head_rotation_warp_unfold:
  "head_rotation_warp cv img hr =
     bind (affine_matrix (fst (shape img)) (snd (shape img)) hr)
       (\<lambda>M. warpAffine cv img M (snd (shape img), fst (shape img)) BORDER_REPLICATE)"
  by (simp add: head_rotation_warp_def case_prod_beta)

lemma rotation_zero:
  "getRotationMatrix2D c (Finite 0) 1 =
     ((Finite 1, Finite 0, Finite 0), (Finite 0, Finite 1, Finite 0))"
  by (simp add: getRotationMatrix2D_def Let_def)

lemma affine_matrix_zero:
  assumes "is_zero p" and "is_zero y"
  shows "affine_matrix h w (PList [p, y, r]) =
           Inr ((Finite 1, Finite 0, Finite 0), (Finite 0, Finite 1, Finite 0))"
  using assms
  by (auto simp: is_zero_def affine_matrix_def py_getitem_def py_mul_def py_neg_def
      cv_double_def np_iadd_def rotation_zero bind_simps Let_def)

lemma mouth_brightness_zero:
  assumes "is_zero m"
  shows "mouth_brightness img m = Inr img"
  using assms
  by (auto simp: is_zero_def mouth_brightness_def py_gt_def literal_0_1 bind_simps)

lemma eye_blink_blur_zero:
  assumes "is_zero l" and "is_zero r"
  shows "eye_blink_blur cv img l r = Inr img"
  using assms
  by (auto simp: is_zero_def eye_blink_blur_def blink_value_def py_add_def py_div2_def
      literal_0_5 bind_simps)

lemma set_reference_image: "reference_image (snd (set_reference cv self img)) = Some img"
  by (simp add: set_reference_def Let_def extract_appearance_def extract_motion_def bind_def
      split: option.splits sum.splits)

lemma shifted_zero: "shifted M (Finite 0) = M"
proof -
  have "entry_add x (Finite 0) = x" for x by (cases x) simp_all
  then show ?thesis by (simp add: shifted_def split: prod.splits)
qed

lemma affine_matrix_floats:
  "affine_matrix h w (PList [PFloat pitch, PFloat yaw, roll]) =
     Inr (shifted (getRotationMatrix2D
                     (round_single (real (w div 2)), round_single (real (h div 2)))
                     (fneg (fmul yaw (Finite 30))) 1)
            (fmul (fmul pitch (Finite 15)) (Finite 2)))"
  by (simp add: affine_matrix_def py_getitem_def py_mul_def py_neg_def cv_double_def
      np_iadd_def shifted_def bind_simps Let_def split: prod.splits)

lemma float_of_int_small: "\<bar>n\<bar> < 2 ^ 53 \<Longrightarrow> float_of_int n = Inr (Finite (of_int n))"
  by (simp add: float_of_int_def round_double_of_int)

lemma cv_double_int: "\<bar>n\<bar> < 2 ^ 53 \<Longrightarrow> cv_double (PInt n) = Inr (Finite (of_int n))"
  by (simp add: cv_double_def round_double_of_int)

lemma np_iadd_int:
  "\<bar>n\<bar> < 2 ^ 53 \<Longrightarrow> np_iadd x (PInt n) = Inr (entry_add x (Finite (of_int n)))"
  by (simp add: np_iadd_def float_of_int_small bind_simps)

lemma affine_matrix_ints:
  assumes "\<bar>yaw * 30\<bar> < 2 ^ 53" and "\<bar>pitch * 30\<bar> < 2 ^ 53"
  shows "affine_matrix h w (PList [PInt pitch, PInt yaw, roll]) =
     Inr (shifted (getRotationMatrix2D
                     (round_single (real (w div 2)), round_single (real (h div 2)))
                     (Finite (- of_int (yaw * 30))) 1)
            (Finite (of_int (pitch * 30))))"
  using assms
  by (simp add: affine_matrix_def py_getitem_def py_mul_def py_neg_def cv_double_int
      np_iadd_int shifted_def bind_simps Let_def split: prod.splits)
     (simp add: mult.commute)

lemma round_to_of_int:
  assumes "\<bar>n\<bar> < 2 ^ p" and "emin \<le> int p - 1"
  shows "round_to p emin (of_int n) = of_int n"
proof -
  have small: "of_int n \<noteq> (0::real) \<longrightarrow>
      max \<lfloor>log 2 \<bar>of_int n :: real\<bar>\<rfloor> emin - (int p - 1) \<le> 0"
  proof
    assume nz: "of_int n \<noteq> (0::real)"
    have "\<bar>of_int n :: real\<bar> < 2 ^ p"
      using assms(1) by (metis of_int_abs of_int_less_numeral_power_cancel_iff)
    then have "\<bar>of_int n :: real\<bar> < pow2 (int p)"
      by (simp add: pow2_def)
    then have "\<lfloor>log 2 \<bar>of_int n :: real\<bar>\<rfloor> < int p"
      by (rule exponent_less [OF nz])
    then show "max \<lfloor>log 2 \<bar>of_int n :: real\<bar>\<rfloor> emin - (int p - 1) \<le> 0"
      using assms(2) by simp
  qed
  have "of_int n \<le> round_to p emin (of_int n)"
    by (rule round_to_ge_int [OF _ small]) simp
  moreover have "round_to p emin (of_int n) \<le> of_int n"
    by (rule round_to_le_int [OF _ small]) simp
  ultimately show ?thesis by simp
qed

lemma round_single_nat: "n < 2 ^ 24 \<Longrightarrow> round_single (real n) = real n"
  using round_to_of_int [of "int n" 24 "- 126"] by (simp add: round_single_def)

subsection \<open>The brightness step\<close>

lemma py_int_nonneg: "0 \<le> x \<Longrightarrow> py_int x = \<lfloor>x\<rfloor>"
  by (simp add: py_int_def)

lemma clip_cast:
  "astype_uint8 (np_clip (Finite x)) = word_of_int \<lfloor>max 0 (min 255 x)\<rfloor>"
proof -
  have "min 255 (max 0 x) = max 0 (min 255 x)"
    by (simp add: min_def max_def)
  moreover have "0 \<le> max 0 (min 255 x)" by simp
  ultimately show ?thesis by (simp add: py_int_nonneg)
qed

lemma uint8_of_clamped:
  "unat (word_of_int \<lfloor>max 0 (min 255 x)\<rfloor> :: 8 word) = nat \<lfloor>max 0 (min 255 (x::real))\<rfloor>"
proof -
  let ?k = "\<lfloor>max 0 (min 255 x)\<rfloor>"
  have lo: "0 \<le> ?k" by simp
  have "max 0 (min 255 x) \<le> 255" by simp
  then have hi: "?k < 2 ^ 8" by (simp add: floor_less_iff)
  have "uint (word_of_int ?k :: 8 word) = ?k"
    using lo hi by (simp add: uint_word_of_int_eq take_bit_int_eq_self)
  then have "nat (uint (word_of_int ?k :: 8 word)) = nat ?k"
    by (rule arg_cong)
  then show ?thesis
    by (simp only: unat_eq_nat_uint)
qed

lemma mouth_brightness_float:
  "mouth_brightness img (PFloat m) =
     Inr (if fgt m (literal 0.1)
          then map (map (map (\<lambda>v. astype_uint8 (np_clip
                 (fmul (Finite (real (unat v))) (fadd (Finite 1) (fmul m (literal 0.05)))))))) img
          else img)"
  by (simp add: mouth_brightness_def py_gt_def py_mul_float_def scale_value_def bind_simps
      Let_def cong: map_cong)

lemma product_0_2: "fmul (literal (1 / 5)) (literal (1 / 20))
    = Finite (1441151880758559 / 144115188075855872)"
  unfolding literal_0_2 literal_0_05 fmul.simps
  by (rule round_double_eval [where e = "- 7"])
     (simp_all add: pow2_def round_half_even_def Let_def)

lemma brightness_0_2:
  "fadd (Finite 1) (fmul (literal (1 / 5)) (literal (1 / 20)))
     = Finite (4548635623644201 / 4503599627370496)"
  unfolding product_0_2 fadd.simps
  by (rule round_double_eval [where e = "0"])
     (simp_all add: pow2_def round_half_even_def Let_def)

lemma floor_min: "\<lfloor>min a b\<rfloor> = min \<lfloor>a\<rfloor> \<lfloor>(b::real)\<rfloor>"
  by (simp add: min_def floor_mono) (meson floor_mono le_cases order_antisym)

lemma exponent_small:
  assumes "x \<noteq> 0" and "\<bar>x\<bar> < 512"
  shows "max \<lfloor>log 2 \<bar>x\<bar>\<rfloor> (- 1022) - (int 53 - 1) \<le> - 44"
proof -
  have "\<bar>x\<bar> < pow2 9" using assms(2) by (simp add: pow2_def)
  then have "\<lfloor>log 2 \<bar>x\<bar>\<rfloor> < 9" by (rule exponent_less [OF assms(1)])
  then show ?thesis by simp
qed

lemma round_near:
  assumes "0 \<le> x" and "x < 512"
  shows "\<bar>round_to 53 (- 1022) x - x\<bar> \<le> 1 / 2 ^ 45"
proof (cases "x = 0")
  case True
  then show ?thesis by (simp add: round_to_def)
next
  case False
  have "\<bar>x\<bar> < 512" using assms by simp
  then have k: "max \<lfloor>log 2 \<bar>x\<bar>\<rfloor> (- 1022) - (int 53 - 1) \<le> - 44"
    by (rule exponent_small [OF False])
  have "pow2 (max \<lfloor>log 2 \<bar>x\<bar>\<rfloor> (- 1022) - (int 53 - 1)) \<le> pow2 (- 44)"
    by (rule pow2_mono [OF k])
  then have "pow2 (max \<lfloor>log 2 \<bar>x\<bar>\<rfloor> (- 1022) - (int 53 - 1)) / 2 \<le> 1 / 2 ^ 45"
    by (simp add: pow2_def)
  then show ?thesis
    using round_to_error [OF False, of 53 "- 1022"] by linarith
qed

lemma round_floor:
  assumes "of_int n \<le> x" and "x + 1 / 2 ^ 45 < of_int n + 1" and "0 \<le> x" and "x < 512"
  shows "\<lfloor>round_to 53 (- 1022) x\<rfloor> = n"
proof -
  have small: "x \<noteq> 0 \<longrightarrow> max \<lfloor>log 2 \<bar>x\<bar>\<rfloor> (- 1022) - (int 53 - 1) \<le> 0"
  proof
    assume "x \<noteq> 0"
    moreover have "\<bar>x\<bar> < 512" using assms by simp
    ultimately have "max \<lfloor>log 2 \<bar>x\<bar>\<rfloor> (- 1022) - (int 53 - 1) \<le> - 44"
      by (rule exponent_small)
    then show "max \<lfloor>log 2 \<bar>x\<bar>\<rfloor> (- 1022) - (int 53 - 1) \<le> 0" by simp
  qed
  have lo: "of_int n \<le> round_to 53 (- 1022) x"
    by (rule round_to_ge_int [OF assms(1) small])
  have "round_to 53 (- 1022) x \<le> x + 1 / 2 ^ 45"
    using round_near [OF assms(3,4)] by linarith
  then have hi: "round_to 53 (- 1022) x < of_int n + 1"
    using assms(2) by linarith
  show ?thesis using lo hi by (simp add: floor_eq_iff)
qed

lemma times_101:
  fixes u :: nat
  shows "of_int (int (u * 101 div 100)) \<le> real u * (101 / 100)"
    and "real u * (101 / 100) \<le> of_int (int (u * 101 div 100)) + 99 / 100"
    and "\<lfloor>real u * (101 / 100)\<rfloor> = int (u * 101 div 100)"
proof -
  define q where "q = u * 101 div 100"
  define m where "m = u * 101 mod 100"
  have e: "u * 101 = 100 * q + m" by (simp add: q_def m_def)
  have m: "m \<le> 99" unfolding m_def by (simp add: less_Suc_eq_le [symmetric])
  have "real (u * 101) = real (100 * q + m)" using e by simp
  then have r: "real u * (101 / 100) = real q + real m / 100" by simp
  have m': "real m \<le> 99" using m by simp
  show "of_int (int (u * 101 div 100)) \<le> real u * (101 / 100)"
    using r by (simp add: q_def [symmetric])
  show "real u * (101 / 100) \<le> of_int (int (u * 101 div 100)) + 99 / 100"
    using r m' by (simp add: q_def [symmetric])
  have "real m / 100 < 1" using m' by simp
  then show "\<lfloor>real u * (101 / 100)\<rfloor> = int (u * 101 div 100)"
    using r by (simp add: q_def [symmetric] floor_eq_iff)
qed

lemma scale_by_1_01:
  fixes v :: "8 word"
  shows "astype_uint8 (np_clip (fmul (Finite (real (unat v)))
            (Finite (4548635623644201 / 4503599627370496))))
         = word_of_int \<lfloor>max 0 (min 255 (real (unat v) * 1.01))\<rfloor>"
proof -
  define u where "u = unat v"
  define c :: real where "c = 4548635623644201 / 4503599627370496"
  define x where "x = real u * c"
  define n where "n = int (u * 101 div 100)"
  have u: "u < 256" using unsigned_less [of v, where 'a = nat] by (simp add: u_def)
  then have ur: "real u < 256" "0 \<le> real u" by simp_all
  have c: "c = 101 / 100 + 1 / 112589990684262400" by (simp add: c_def)
  have x0: "0 \<le> x" by (simp add: x_def c_def)
  have xe: "x = real u * (101 / 100) + real u / 112589990684262400"
    by (simp add: x_def c algebra_simps)
  have x1: "x < 512" using ur by (simp add: xe)
  have lo: "of_int n \<le> x"
    using times_101(1) [of u] ur by (simp add: xe n_def)
  have hi: "x + 1 / 2 ^ 45 < of_int n + 1"
    using times_101(2) [of u] ur by (simp add: xe n_def)
  have fl: "\<lfloor>round_to 53 (- 1022) x\<rfloor> = n"
    by (rule round_floor [OF lo hi x0 x1])
  have near: "\<bar>round_to 53 (- 1022) x - x\<bar> \<le> 1 / 2 ^ 45"
    by (rule round_near [OF x0 x1])
  then have "\<bar>round_to 53 (- 1022) x\<bar> < 2 ^ 1024"
    using x0 x1 by (simp add: abs_if split: if_splits)
  then have rd: "round_double x = Finite (round_to 53 (- 1022) x)"
    by (simp add: round_double_def)
  have n0: "0 \<le> n" by (simp add: n_def)
  have r0: "0 \<le> round_to 53 (- 1022) x" using lo n0 fl by (simp add: floor_eq_iff)
  have "max 0 (min 255 (round_to 53 (- 1022) x)) = min 255 (round_to 53 (- 1022) x)"
    using r0 by simp
  then have "\<lfloor>max 0 (min 255 (round_to 53 (- 1022) x))\<rfloor> = min 255 n"
    using fl by (simp add: floor_min)
  moreover have "max 0 (min 255 (real u * (101 / 100))) = min 255 (real u * (101 / 100))"
    by simp
  then have "\<lfloor>max 0 (min 255 (real u * (101 / 100)))\<rfloor> = min 255 n"
    using times_101(3) [of u] by (simp add: floor_min n_def)
  ultimately have fl2: "\<lfloor>max 0 (min 255 (round_to 53 (- 1022) x))\<rfloor>
      = \<lfloor>max 0 (min 255 (real u * (101 / 100)))\<rfloor>"
    by simp
  have "fmul (Finite (real u)) (Finite c) = Finite (round_to 53 (- 1022) x)"
    using rd by (simp add: x_def)
  then have "astype_uint8 (np_clip (fmul (Finite (real u)) (Finite c)))
      = word_of_int \<lfloor>max 0 (min 255 (round_to 53 (- 1022) x))\<rfloor>"
    by (simp only: clip_cast)
  then have "astype_uint8 (np_clip (fmul (Finite (real u)) (Finite c)))
      = word_of_int \<lfloor>max 0 (min 255 (real u * (101 / 100)))\<rfloor>"
    by (simp only: fl2)
  then show ?thesis
    by (simp add: u_def c_def)
qed

lemma mouth_brightness_int:
  assumes "\<bar>n\<bar> < 2 ^ 53"
  shows "mouth_brightness img (PInt n) = mouth_brightness img (PFloat (Finite (of_int n)))"
proof -
  have "int_gt n c = fgt (Finite (of_int n)) c" for c by (cases c) simp_all
  then show ?thesis
    by (simp add: mouth_brightness_def py_gt_def py_mul_float_def float_of_int_small [OF assms]
        bind_simps)
qed

subsection \<open>Evaluations\<close>

lemma product_0_5:
  "fmul (Finite (1 / 2)) (Finite (3602879701896397 / 72057594037927936))
     = Finite (3602879701896397 / 144115188075855872)"
  unfolding fmul.simps
  by (rule round_double_eval [where e = "- 6"])
     (simp_all add: pow2_def round_half_even_def Let_def)

lemma brightness_0_5:
  "fadd (Finite 1) (Finite (3602879701896397 / 144115188075855872))
     = Finite (2308094809027379 / 2251799813685248)"
  unfolding fadd.simps
  by (rule round_double_eval [where e = "0"])
     (simp_all add: pow2_def round_half_even_def Let_def)

lemma scaled_200_0_5:
  "fmul (Finite 200) (Finite (2308094809027379 / 2251799813685248))
     = Finite (7212796278210559 / 35184372088832)"
  unfolding fmul.simps
  by (rule round_double_eval [where e = "7"])
     (simp_all add: pow2_def round_half_even_def Let_def)

lemma scaled_120_0_5:
  "fmul (Finite 120) (Finite (2308094809027379 / 2251799813685248))
     = Finite (8655355533852671 / 70368744177664)"
  unfolding fmul.simps
  by (rule round_double_eval [where e = "6"])
     (simp_all add: pow2_def round_half_even_def Let_def)

lemma scaled_240_0_5:
  "fmul (Finite 240) (Finite (2308094809027379 / 2251799813685248))
     = Finite (8655355533852671 / 35184372088832)"
  unfolding fmul.simps
  by (rule round_double_eval [where e = "7"])
     (simp_all add: pow2_def round_half_even_def Let_def)

lemma product_1:
  "fmul (Finite 1) (Finite (3602879701896397 / 72057594037927936))
     = Finite (3602879701896397 / 72057594037927936)"
  unfolding fmul.simps
  by (rule round_double_eval [where e = "- 5"])
     (simp_all add: pow2_def round_half_even_def Let_def)

lemma brightness_1:
  "fadd (Finite 1) (Finite (3602879701896397 / 72057594037927936))
     = Finite (4728779608739021 / 4503599627370496)"
  unfolding fadd.simps
  by (rule round_double_eval [where e = "0"])
     (simp_all add: pow2_def round_half_even_def Let_def)

lemma scaled_100_1:
  "fmul (Finite 100) (Finite (4728779608739021 / 4503599627370496))
     = Finite 105"
  unfolding fmul.simps
  by (rule round_double_eval [where e = "6"])
     (simp_all add: pow2_def round_half_even_def Let_def)

lemma scaled_200_1:
  "fmul (Finite 200) (Finite (4728779608739021 / 4503599627370496))
     = Finite 210"
  unfolding fmul.simps
  by (rule round_double_eval [where e = "7"])
     (simp_all add: pow2_def round_half_even_def Let_def)

lemma scaled_255_1:
  "fmul (Finite 255) (Finite (4728779608739021 / 4503599627370496))
     = Finite (1071 / 4)"
  unfolding fmul.simps
  by (rule round_double_eval [where e = "8"])
     (simp_all add: pow2_def round_half_even_def Let_def)

lemma blink_sum_0_8:
  "fadd (Finite (3602879701896397 / 4503599627370496)) (Finite (3602879701896397 / 4503599627370496))
     = Finite (3602879701896397 / 2251799813685248)"
  unfolding fadd.simps
  by (rule round_double_eval [where e = "0"])
     (simp_all add: pow2_def round_half_even_def Let_def)

lemma blink_0_8:
  "fhalf (Finite (3602879701896397 / 2251799813685248))
     = Finite (3602879701896397 / 4503599627370496)"
  unfolding fhalf.simps
  by (rule round_double_eval [where e = "- 1"])
     (simp_all add: pow2_def round_half_even_def Let_def)

lemma blink_twice_0_8:
  "fmul (Finite (3602879701896397 / 4503599627370496)) (Finite 2)
     = Finite (3602879701896397 / 2251799813685248)"
  unfolding fmul.simps
  by (rule round_double_eval [where e = "0"])
     (simp_all add: pow2_def round_half_even_def Let_def)

lemma blink_kernel_0_8:
  "fadd (Finite 3) (Finite (3602879701896397 / 2251799813685248))
     = Finite (2589569785738035 / 562949953421312)"
  unfolding fadd.simps
  by (rule round_double_eval [where e = "2"])
     (simp_all add: pow2_def round_half_even_def Let_def)

lemma blink_sum_1_3:
  "fadd (Finite (5854679515581645 / 4503599627370496)) (Finite (5854679515581645 / 4503599627370496))
     = Finite (5854679515581645 / 2251799813685248)"
  unfolding fadd.simps
  by (rule round_double_eval [where e = "1"])
     (simp_all add: pow2_def round_half_even_def Let_def)

lemma blink_1_3:
  "fhalf (Finite (5854679515581645 / 2251799813685248))
     = Finite (5854679515581645 / 4503599627370496)"
  unfolding fhalf.simps
  by (rule round_double_eval [where e = "0"])
     (simp_all add: pow2_def round_half_even_def Let_def)

lemma blink_twice_1_3:
  "fmul (Finite (5854679515581645 / 4503599627370496)) (Finite 2)
     = Finite (5854679515581645 / 2251799813685248)"
  unfolding fmul.simps
  by (rule round_double_eval [where e = "1"])
     (simp_all add: pow2_def round_half_even_def Let_def)

lemma blink_kernel_1_3:
  "fadd (Finite 3) (Finite (5854679515581645 / 2251799813685248))
     = Finite (3152519739159347 / 562949953421312)"
  unfolding fadd.simps
  by (rule round_double_eval [where e = "2"])
     (simp_all add: pow2_def round_half_even_def Let_def)

lemma blink_sum_1_5:
  "fadd (Finite (6755399441055743 / 4503599627370496)) (Finite (6755399441055743 / 4503599627370496))
     = Finite (6755399441055743 / 2251799813685248)"
  unfolding fadd.simps
  by (rule round_double_eval [where e = "1"])
     (simp_all add: pow2_def round_half_even_def Let_def)

lemma blink_1_5:
  "fhalf (Finite (6755399441055743 / 2251799813685248))
     = Finite (6755399441055743 / 4503599627370496)"
  unfolding fhalf.simps
  by (rule round_double_eval [where e = "0"])
     (simp_all add: pow2_def round_half_even_def Let_def)

lemma blink_twice_1_5:
  "fmul (Finite (6755399441055743 / 4503599627370496)) (Finite 2)
     = Finite (6755399441055743 / 2251799813685248)"
  unfolding fmul.simps
  by (rule round_double_eval [where e = "1"])
     (simp_all add: pow2_def round_half_even_def Let_def)

lemma blink_kernel_1_5:
  "fadd (Finite 3) (Finite (6755399441055743 / 2251799813685248))
     = Finite 6"
  unfolding fadd.simps
  by (rule round_double_eval [where e = "2"])
     (simp_all add: pow2_def round_half_even_def Let_def)

lemma blink_sum_tie:
  "fadd (Finite (1 / 2)) (Finite (4503599627370497 / 9007199254740992))
     = Finite 1"
  unfolding fadd.simps
  by (rule round_double_eval [where e = "0"])
     (simp_all add: pow2_def round_half_even_def Let_def)

lemma blink_tie: "fhalf (Finite 1) = Finite (1 / 2)"
  unfolding fhalf.simps
  by (rule round_double_eval [where e = "- 1"])
     (simp_all add: pow2_def round_half_even_def Let_def)

lemma standin_warp_zero:
  assumes "is_zero p" and "is_zero y"
  shows "head_rotation_warp cv_standin img (PList [p, y, r]) = Inr img"
  using affine_matrix_zero [OF assms]
  by (simp add: head_rotation_warp_unfold bind_simps cv_standin_def identity_matrix_def)

lemma reference_with_reference: "reference_image (with_reference img) = Some img"
  by (simp add: with_reference_def)

lemma round_to_half_int:
  assumes "\<bar>n\<bar> < 2 ^ 53"
  shows "round_to 53 (- 1022) (of_int n / 2) = of_int n / 2"
proof (cases "n = 0")
  case True
  then show ?thesis by (simp add: round_to_def)
next
  case False
  define x :: real where "x = of_int n / 2"
  define k where "k = max \<lfloor>log 2 \<bar>x\<bar>\<rfloor> (- 1022) - (int 53 - 1)"
  have nz: "x \<noteq> 0" using False by (simp add: x_def)
  have "\<bar>of_int n :: real\<bar> < 2 ^ 53"
    using assms by (metis of_int_abs of_int_less_numeral_power_cancel_iff)
  then have "\<bar>x\<bar> < pow2 52" by (simp add: x_def pow2_def)
  then have "\<lfloor>log 2 \<bar>x\<bar>\<rfloor> < 52" by (rule exponent_less [OF nz])
  then have k: "k \<le> - 1" by (simp add: k_def)
  define j where "j = nat (- k - 1)"
  have kj: "nat (- k) = Suc j" using k by (simp add: j_def)
  have p: "pow2 k = 1 / (2 * 2 ^ j)" using k by (simp add: pow2_def kj)
  have q: "x / pow2 k = of_int (n * 2 ^ j)" by (simp add: p x_def)
  have "round_to 53 (- 1022) x = of_int (round_half_even (x / pow2 k)) * pow2 k"
    using nz by (simp add: round_to_def Let_def k_def)
  also have "\<dots> = of_int (n * 2 ^ j) * pow2 k"
    by (simp only: q round_half_even_of_int)
  also have "\<dots> = x" by (simp add: p x_def)
  finally show ?thesis by (simp add: x_def)
qed

lemma round_double_half_int:
  assumes "\<bar>n\<bar> < 2 ^ 53"
  shows "round_double (of_int n / 2) = Finite (of_int n / 2)"
proof -
  have "\<bar>of_int n :: real\<bar> < 2 ^ 53"
    using assms by (metis of_int_abs of_int_less_numeral_power_cancel_iff)
  then have "\<bar>of_int n / 2 :: real\<bar> < 2 ^ 53" by simp
  also have "(2::real) ^ 53 < 2 ^ 1024" by simp
  finally have "\<not> 2 ^ 1024 \<le> \<bar>of_int n / 2 :: real\<bar>" by simp
  then show ?thesis
    unfolding round_double_def Let_def round_to_half_int [OF assms] by (rule if_not_P)
qed

lemma eye_blink_blur_floats:
  "eye_blink_blur cv img (PFloat l) (PFloat r) =
     (if fgt (fhalf (fadd l r)) (literal 0.5)
      then bind (float_int (fadd (Finite 3) (fmul (fhalf (fadd l r)) (Finite 2))))
             (\<lambda>k. GaussianBlur cv img
                    (if k mod 2 = 0 then k + 1 else k, if k mod 2 = 0 then k + 1 else k) 0)
      else Inr img)"
  by (cases "float_int (fadd (Finite 3) (fmul (fhalf (fadd l r)) (Finite 2)))")
     (simp_all add: eye_blink_blur_def blink_value_def py_add_def py_div2_def kernel_size_def
      bind_simps del: fadd.simps fmul.simps fhalf.simps)

lemma eye_blink_blur_ints:
  assumes "\<bar>a + b\<bar> < 2 ^ 53"
  shows "eye_blink_blur cv img (PInt a) (PInt b) =
     (if fgt (Finite (of_int (a + b) / 2)) (literal 0.5)
      then bind (float_int (fadd (Finite 3) (fmul (Finite (of_int (a + b) / 2)) (Finite 2))))
             (\<lambda>k. GaussianBlur cv img
                    (if k mod 2 = 0 then k + 1 else k, if k mod 2 = 0 then k + 1 else k) 0)
      else Inr img)"
  using round_double_half_int [OF assms]
  by (cases "float_int (fadd (Finite 3) (fmul (Finite (of_int (a + b) / 2)) (Finite 2)))")
     (simp_all add: eye_blink_blur_def blink_value_def py_add_def py_div2_def kernel_size_def
      bind_simps del: fadd.simps fmul.simps fhalf.simps)

lemma eye_blink_blur_0_8:
  "eye_blink_blur cv img (PFloat (literal (4 / 5))) (PFloat (literal (4 / 5)))
     = GaussianBlur cv img (5, 5) 0"
  by (simp add: eye_blink_blur_floats literal_0_8 literal_0_5 blink_sum_0_8 blink_0_8
      blink_twice_0_8 blink_kernel_0_8 py_int_def bind_simps
      del: fadd.simps fmul.simps fhalf.simps)

lemma twice_1: "fmul (Finite 1) (Finite 2) = Finite 2"
  unfolding fmul.simps
  by (rule round_double_eval [where e = "1"])
     (simp_all add: pow2_def round_half_even_def Let_def)

lemma kernel_of_1: "fadd (Finite 3) (Finite 2) = Finite 5"
  unfolding fadd.simps
  by (rule round_double_eval [where e = "2"])
     (simp_all add: pow2_def round_half_even_def Let_def)

lemma probe_warp_zero:
  assumes "is_zero p" and "is_zero y"
  shows "head_rotation_warp cv_probe img (PList [p, y, r]) = Inr img"
  using affine_matrix_zero [OF assms]
  by (simp add: head_rotation_warp_unfold bind_simps cv_probe_def)

lemma probe_blur:
  "GaussianBlur cv_probe img (kw, kh) sigma = Inr [[[word_of_int kw, word_of_int kh]]]"
  by (simp add: cv_probe_def)

lemma shape_small_image: "shape small_image = (2, 2)"
  by (simp add: shape_def small_image_def)

lemma expect_warp:
  "warpAffine (cv_expect M0) img M dsize b =
     (if M = M0 \<and> dsize = (snd (shape img), fst (shape img)) \<and> b = BORDER_REPLICATE
      then Inr img else Inl LibraryError)"
  by (simp add: cv_expect_def)

lemma standin_warp:
  "warpAffine cv_standin img M dsize b =
     (if M = identity_matrix \<and> dsize = (snd (shape img), fst (shape img))
      then Inr img else Inl LibraryError)"
  by (simp add: cv_standin_def)

lemma sqrt3_less_2: "sqrt 3 < 2"
  by (rule real_less_lsqrt) simp_all

lemma round_single_one: "round_single 1 = 1"
  using round_single_nat [of 1] by simp

subsection \<open>set_reference and the gateway\<close>

lemma shape_solid: "shape (solid px) = (256, 256)"
proof -
  have "replicate 256 (replicate 256 px) = replicate 256 px # replicate 255 (replicate 256 px)"
    by (simp add: numeral_eq_Suc)
  then show ?thesis by (simp add: shape_def solid_def)
qed

lemma channels_solid: "channels (solid px) = length px"
proof -
  have "solid px = (px # replicate 255 px) # replicate 255 (replicate 256 px)"
    by (simp add: numeral_eq_Suc solid_def)
  then show ?thesis by (simp add: channels_def)
qed

lemma extract_appearance_rgb:
  "extract_appearance cv (rgb_only [7]) self (solid [1, 2, 3]) =
     Inr (self\<lparr>generator_input := Some 7\<rparr>)"
  by (simp add: extract_appearance_def preprocess_image_def shape_solid channels_solid
      bind_simps rgb_only_def output_at_def)

lemma extract_appearance_rgba:
  "extract_appearance cv (rgb_only outs) self (solid [1, 2, 3, 4]) = Inl LibraryError"
  by (simp add: extract_appearance_def preprocess_image_def shape_solid channels_solid
      bind_simps rgb_only_def)

lemma extract_motion_rgb:
  "extract_motion cv (rgb_only [8, 9]) self (solid [1, 2, 3]) =
     Inr (self\<lparr>source_kp := Some 8, source_rotation := Some 9\<rparr>)"
  by (simp add: extract_motion_def preprocess_image_def shape_solid channels_solid
      bind_simps rgb_only_def)

lemma extract_motion_rgba:
  "extract_motion cv (rgb_only outs) self (solid [1, 2, 3, 4]) = Inl LibraryError"
  by (simp add: extract_motion_def preprocess_image_def shape_solid channels_solid
      bind_simps rgb_only_def)

lemma first_reference:
  "snd (set_reference cv_standin loaded_pipeline (solid [1, 2, 3])) =
     loaded_pipeline\<lparr>reference_image := Some (solid [1, 2, 3]),
                     generator_input := Some 7, source_kp := Some 8,
                     source_rotation := Some 9\<rparr>"
  by (simp add: set_reference_def Let_def loaded_pipeline_def init_def extract_appearance_rgb
      extract_motion_rgb)

lemma inference_state: "snd (inference cv self m) = self"
  by (simp add: inference_def split: option.splits)

lemma run_inferences_state: "snd (run_inferences cv self ms) = self"
  by (induction ms) (auto simp: inference_def split: option.splits prod.splits)

lemma websocket_message_dict_cases:
  "fst (websocket_message cv encode srv (Inr (PDict d))) = Inr []
   \<or> fst (websocket_message cv encode srv (Inr (PDict d))) = Inr [Pong]
   \<or> fst (websocket_message cv encode srv (Inr (PDict d))) =
       Inr [Status ''Pipeline not ready or reference not loaded'']
   \<or> (\<exists>e. fst (websocket_message cv encode srv (Inr (PDict d))) = Inr [Error e])
   \<or> (\<exists>s. fst (websocket_message cv encode srv (Inr (PDict d))) = Inr [Frame s])"
  by (auto simp: websocket_message_def py_get_def dict_get_def split: option.splits sum.splits prod.splits)

lemma websocket_message_state: "snd (websocket_message cv encode srv loaded) = srv"
  by (auto simp: websocket_message_def py_get_def dict_get_def inference_def
      split: option.splits sum.splits prod.splits pyval.splits)

lemma websocket_message_error_reply:
  assumes "d ''type'' = Some (PStr ''motion'')" and "pipeline srv = Some p" and "is_ready p"
    and "global_reference_image srv \<noteq> None"
    and "bind (fst (inference cv p (case d ''params'' of Some v \<Rightarrow> v
                                    | None \<Rightarrow> PDict Map.empty))) encode = Inl e"
  shows "fst (websocket_message cv encode srv (Inr (PDict d))) = Inr [Error e]"
  using assms
  by (auto simp: websocket_message_def py_get_def dict_get_def split: option.splits sum.splits prod.splits)

lemma message_loop_continue:
  "websocket_message cv encode srv loaded = (Inr replies, srv)
     \<Longrightarrow> fst (message_loop cv encode srv (loaded # rest))
           = replies @ fst (message_loop cv encode srv rest)"
  by (simp split: prod.splits)

lemma ready_server_fields:
  "pipeline ready_server = Some (init\<lparr>is_ready := True, reference_image := Some small_image\<rparr>)"
  "global_reference_image ready_server = Some small_image"
  by (simp_all add: ready_server_def)

lemma synthesize_zero_standin:
  "synthesize cv_standin small_image zero_motion = Inr small_image"
proof -
  have z: "is_zero (PInt 0)" by (simp add: is_zero_def)
  show ?thesis
    by (simp add: zero_motion_def synthesize_steps dict_get_def standin_warp_zero [OF z z]
        mouth_brightness_zero [OF z] eye_blink_blur_zero [OF z z] bind_simps)
qed

section \<open>The claims\<close>

text \<open>
  C1. After \<open>set_reference\<close> has stored an image, \<open>inference\<close> with the all-zero
  motion record returns that image, value for value: the matrix of the warp is the
  identity, and neither the brightness step nor the blur runs. This holds for
  \<open>zero_motion\<close>, and for every record whose zeros are the integer 0 or the float
  0.0. The image is one the library warps by the identity matrix onto itself.
\<close>

theorem zero_motion_returns_reference:
  assumes "warpAffine cv img ((Finite 1, Finite 0, Finite 0), (Finite 0, Finite 1, Finite 0))
             (snd (shape img), fst (shape img)) BORDER_REPLICATE = Inr img"
    and "is_zero pitch" and "is_zero yaw" and "is_zero roll" and "is_zero mouth_open"
    and "is_zero eye_blink_left" and "is_zero eye_blink_right" and "is_zero smile"
  shows "fst (inference cv (snd (set_reference cv self img)) zero_motion) = Inr img
       \<and> fst (inference cv (snd (set_reference cv self img))
           (PDict [''headRotation'' \<mapsto> PList [pitch, yaw, roll],
                   ''mouthOpen'' \<mapsto> mouth_open,
                   ''eyeBlinkLeft'' \<mapsto> eye_blink_left,
                   ''eyeBlinkRight'' \<mapsto> eye_blink_right,
                   ''smile'' \<mapsto> smile])) = Inr img"
proof -
  have run: "fst (inference cv (snd (set_reference cv self img))
           (PDict [''headRotation'' \<mapsto> PList [p, y, r], ''mouthOpen'' \<mapsto> m,
                   ''eyeBlinkLeft'' \<mapsto> el, ''eyeBlinkRight'' \<mapsto> er,
                   ''smile'' \<mapsto> s])) = Inr img"
    if "is_zero p" and "is_zero y" and "is_zero m" and "is_zero el" and "is_zero er"
    for p y r m el er s
  proof -
    have warp: "head_rotation_warp cv img (PList [p, y, r]) = Inr img"
      using assms(1) affine_matrix_zero [OF that(1,2)]
      by (simp add: head_rotation_warp_unfold bind_simps)
    show ?thesis
      by (simp add: inference_steps [OF set_reference_image] dict_get_def warp bind_simps
          mouth_brightness_zero [OF that(3)] eye_blink_blur_zero [OF that(4,5)])
  qed
  have z: "is_zero (PInt 0)" by (simp add: is_zero_def)
  have "fst (inference cv (snd (set_reference cv self img)) zero_motion) = Inr img"
    unfolding zero_motion_def by (rule run [OF z z z z z])
  moreover note run [OF assms(2,3,5,6,7)]
  ultimately show ?thesis by simp
qed

theorem zero_motion_returns_reference_witness:
  "warpAffine cv_standin (solid [1, 2, 3])
     ((Finite 1, Finite 0, Finite 0), (Finite 0, Finite 1, Finite 0))
     (snd (shape (solid [1, 2, 3])), fst (shape (solid [1, 2, 3]))) BORDER_REPLICATE
     = Inr (solid [1, 2, 3])
   \<and> is_zero (PInt 0) \<and> is_zero (PFloat (Finite 0))
   \<and> fst (inference cv_standin (snd (set_reference cv_standin loaded_pipeline (solid [1, 2, 3])))
        zero_motion) = Inr (solid [1, 2, 3])
   \<and> fst (inference cv_standin (snd (set_reference cv_standin loaded_pipeline (solid [1, 2, 3])))
        (PDict [''headRotation'' \<mapsto> PList [PFloat (Finite 0), PInt 0, PFloat (Finite 0)],
                ''mouthOpen'' \<mapsto> PFloat (Finite 0),
                ''eyeBlinkLeft'' \<mapsto> PInt 0,
                ''eyeBlinkRight'' \<mapsto> PFloat (Finite 0),
                ''smile'' \<mapsto> PInt 0])) = Inr (solid [1, 2, 3])"
proof -
  have h: "warpAffine cv_standin (solid [1, 2, 3])
     ((Finite 1, Finite 0, Finite 0), (Finite 0, Finite 1, Finite 0))
     (snd (shape (solid [1, 2, 3])), fst (shape (solid [1, 2, 3]))) BORDER_REPLICATE
     = Inr (solid [1, 2, 3])"
    by (simp add: cv_standin_def identity_matrix_def)
  have zi: "is_zero (PInt 0)" and zf: "is_zero (PFloat (Finite 0))"
    by (simp_all add: is_zero_def)
  show ?thesis
    using h zi zf
      zero_motion_returns_reference [OF h zf zi zf zf zi zf zi, of loaded_pipeline]
    by simp
qed




text \<open>
  C3, as the code has it. A message that decodes to a JSON object never ends the loop:
  it is answered by at most one reply, the state of the server is unchanged, and the
  loop goes on with the next message. For a \<open>motion\<close> message that reaches the
  synthesis, an exception raised by \<open>inference\<close> or by the encoding of the frame is
  answered by an \<open>error\<close> reply that carries it.
\<close>

theorem websocket_message_object:
  "(\<exists>replies. length replies \<le> 1
        \<and> websocket_message cv encode srv (Inr (PDict d)) = (Inr replies, srv)
        \<and> fst (message_loop cv encode srv (Inr (PDict d) # rest))
            = replies @ fst (message_loop cv encode srv rest))
   \<and> (d ''type'' = Some (PStr ''motion'') \<and> pipeline srv = Some p \<and> is_ready p
        \<and> global_reference_image srv \<noteq> None
        \<and> bind (fst (inference cv p (case d ''params'' of Some v \<Rightarrow> v
                                       | None \<Rightarrow> PDict Map.empty))) encode = Inl e
       \<longrightarrow> fst (websocket_message cv encode srv (Inr (PDict d))) = Inr [Error e])"
proof (intro conjI impI)
  obtain replies where r: "fst (websocket_message cv encode srv (Inr (PDict d))) = Inr replies"
    and l: "length replies \<le> 1"
    using websocket_message_dict_cases [of cv encode srv d] by auto
  have w: "websocket_message cv encode srv (Inr (PDict d)) = (Inr replies, srv)"
    using r websocket_message_state [of cv encode srv "Inr (PDict d)"]
    by (metis prod.collapse)
  show "\<exists>replies. length replies \<le> 1
        \<and> websocket_message cv encode srv (Inr (PDict d)) = (Inr replies, srv)
        \<and> fst (message_loop cv encode srv (Inr (PDict d) # rest))
            = replies @ fst (message_loop cv encode srv rest)"
    using l w message_loop_continue [OF w] by blast
next
  assume "d ''type'' = Some (PStr ''motion'') \<and> pipeline srv = Some p \<and> is_ready p
        \<and> global_reference_image srv \<noteq> None
        \<and> bind (fst (inference cv p (case d ''params'' of Some v \<Rightarrow> v
                                       | None \<Rightarrow> PDict Map.empty))) encode = Inl e"
  then show "fst (websocket_message cv encode srv (Inr (PDict d))) = Inr [Error e]"
    using websocket_message_error_reply by blast
qed

theorem websocket_message_object_witness:
  "fst (websocket_message cv_standin jpeg_standin ready_server
          (Inr (PDict [''type'' \<mapsto> PStr ''motion'', ''params'' \<mapsto> PList []])))
     = Inr [Error AttributeError]
   \<and> fst (message_loop cv_standin jpeg_standin ready_server
          [Inr (PDict [''type'' \<mapsto> PStr ''motion'', ''params'' \<mapsto> PList []]),
           Inr ping_message])
     = [Error AttributeError, Pong]"
proof -
  let ?d = "[''type'' \<mapsto> PStr ''motion'', ''params'' \<mapsto> PList []]"
  let ?p = "(init :: nat LivePortraitPipeline)\<lparr>is_ready := True, reference_image := Some small_image\<rparr>"
  have raise: "bind (fst (inference cv_standin ?p
                 (case ?d ''params'' of Some v \<Rightarrow> v | None \<Rightarrow> PDict Map.empty)))
               jpeg_standin = Inl AttributeError"
    by (simp add: inference_def synthesize_def py_get_def dict_get_def bind_simps init_def)
  have hyp: "?d ''type'' = Some (PStr ''motion'') \<and> pipeline ready_server = Some ?p
      \<and> is_ready ?p \<and> global_reference_image ready_server \<noteq> None
      \<and> bind (fst (inference cv_standin ?p
                 (case ?d ''params'' of Some v \<Rightarrow> v | None \<Rightarrow> PDict Map.empty)))
               jpeg_standin = Inl AttributeError"
    using raise by (simp add: ready_server_fields)
  have ping: "fst (message_loop cv_standin jpeg_standin ready_server [Inr ping_message]) = [Pong]"
    by (simp add: websocket_message_def py_get_def dict_get_def ping_message_def)
  from websocket_message_object [of cv_standin jpeg_standin ready_server ?d
      "[Inr ping_message]" ?p AttributeError] hyp ping
  show ?thesis
    by auto
qed

text \<open>
  C3 as stated fails. A text that is not JSON raises in \<open>json.loads\<close>, outside the
  inner \<open>try\<close>: nothing is sent, the loop is left, and the \<open>ping\<close> that follows is
  never answered, where alone it is answered by \<open>pong\<close>. The same holds for a text
  that decodes to a list.
\<close>

theorem invalid_json_counterexample:
  "fst (websocket_endpoint cv_standin jpeg_standin ready_server 0
         [Inl JSONDecodeError, Inr ping_message]) = []
   \<and> fst (websocket_endpoint cv_standin jpeg_standin ready_server 0 [Inr ping_message]) = [Pong]
   \<and> fst (websocket_endpoint cv_standin jpeg_standin ready_server 0
         [Inr (PList [PInt 1]), Inr ping_message]) = []"
  by (simp add: websocket_endpoint_def websocket_message_def py_get_def dict_get_def ping_message_def
      split: prod.splits)

text \<open>
  C4, as the code has it. \<open>set_reference\<close> never raises and always stores the new
  image. Where the appearance extraction raises, the cached appearance features are
  the ones held before the call; where the motion extraction raises, the cached
  keypoints and rotation are the ones held before the call. The cache is not emptied.
\<close>

theorem set_reference_extraction_raises:
  "fst (set_reference cv self img) = Inr ()
   \<and> reference_image (snd (set_reference cv self img)) = Some img
   \<and> ((\<exists>session e. appearance_extractor self = Some session
          \<and> extract_appearance cv session self img = Inl e)
        \<longrightarrow> generator_input (snd (set_reference cv self img)) = generator_input self)
   \<and> ((\<exists>session e. motion_extractor self = Some session
          \<and> extract_motion cv session self img = Inl e)
        \<longrightarrow> source_kp (snd (set_reference cv self img)) = source_kp self
          \<and> source_rotation (snd (set_reference cv self img)) = source_rotation self)"
  by (auto simp: set_reference_def Let_def extract_appearance_def extract_motion_def bind_def
      split: option.splits sum.splits)

theorem set_reference_extraction_raises_witness:
  "fst (set_reference cv_standin
         (loaded_pipeline\<lparr>generator_input := Some 7, source_kp := Some 8\<rparr>)
         (solid [1, 2, 3, 4])) = Inr ()
   \<and> reference_image (snd (set_reference cv_standin
         (loaded_pipeline\<lparr>generator_input := Some 7, source_kp := Some 8\<rparr>)
         (solid [1, 2, 3, 4]))) = Some (solid [1, 2, 3, 4])
   \<and> generator_input (snd (set_reference cv_standin
         (loaded_pipeline\<lparr>generator_input := Some 7, source_kp := Some 8\<rparr>)
         (solid [1, 2, 3, 4]))) = Some 7
   \<and> source_kp (snd (set_reference cv_standin
         (loaded_pipeline\<lparr>generator_input := Some 7, source_kp := Some 8\<rparr>)
         (solid [1, 2, 3, 4]))) = Some 8"
proof -
  let ?self = "loaded_pipeline\<lparr>generator_input := Some 7, source_kp := Some 8\<rparr>"
  have a: "\<exists>session e. appearance_extractor ?self = Some session
             \<and> extract_appearance cv_standin session ?self (solid [1, 2, 3, 4]) = Inl e"
    by (simp add: loaded_pipeline_def init_def extract_appearance_rgba)
  have m: "\<exists>session e. motion_extractor ?self = Some session
             \<and> extract_motion cv_standin session ?self (solid [1, 2, 3, 4]) = Inl e"
    by (simp add: loaded_pipeline_def init_def extract_motion_rgba)
  show ?thesis
    using set_reference_extraction_raises [of cv_standin ?self "solid [1, 2, 3, 4]"] a m
    by (simp add: loaded_pipeline_def init_def)
qed

text \<open>
  C4 as stated fails. A pipeline whose sessions accept three channels takes a
  three-channel reference, which fills the cache; it then takes a four-channel
  reference, for which both extractions raise. The new image is stored, and the cache
  still holds the features of the first image.
\<close>

theorem stale_features_counterexample:
  "extract_appearance cv_standin (rgb_only [7])
     (snd (set_reference cv_standin loaded_pipeline (solid [1, 2, 3]))) (solid [1, 2, 3, 4])
     = Inl LibraryError
   \<and> extract_motion cv_standin (rgb_only [8, 9])
       (snd (set_reference cv_standin loaded_pipeline (solid [1, 2, 3]))) (solid [1, 2, 3, 4])
       = Inl LibraryError
   \<and> reference_image
       (snd (set_reference cv_standin
              (snd (set_reference cv_standin loaded_pipeline (solid [1, 2, 3])))
              (solid [1, 2, 3, 4]))) = Some (solid [1, 2, 3, 4])
   \<and> generator_input
       (snd (set_reference cv_standin
              (snd (set_reference cv_standin loaded_pipeline (solid [1, 2, 3])))
              (solid [1, 2, 3, 4]))) = Some 7
   \<and> source_kp
       (snd (set_reference cv_standin
              (snd (set_reference cv_standin loaded_pipeline (solid [1, 2, 3])))
              (solid [1, 2, 3, 4]))) = Some 8"
  by (simp add: first_reference extract_appearance_rgba extract_motion_rgba)
     (simp add: set_reference_def Let_def loaded_pipeline_def init_def extract_appearance_rgba
      extract_motion_rgba)



text \<open>
  C6. For a float \<open>mouthOpen\<close> above 0.1, \<open>inference\<close> replaces every value \<open>v\<close>
  of the warped frame by the 8-bit value of \<open>v * (1.0 + mouthOpen * 0.05)\<close>, computed
  in floats and clipped to the range from 0 to 255; at or below 0.1 the warped frame
  goes to the blur unchanged. For \<open>mouthOpen = 0.2\<close> every value \<open>v\<close> becomes the
  integer part of \<open>v \<times> 1.01\<close> clipped to the range from 0 to 255, in exact
  arithmetic. An integer below \<open>2 ^ 53\<close> in magnitude behaves as the float of the
  same value. The 8-bit value of a clipped float is its integer part, without any
  wrapping.
\<close>

theorem mouth_brightness_formula:
  assumes "reference_image self = Some ref"
  shows "(d ''mouthOpen'' = Some (PFloat m) \<longrightarrow>
          fst (inference cv self (PDict d)) =
            bind (head_rotation_warp cv ref
                    (dict_get d ''headRotation'' (PList [PInt 0, PInt 0, PInt 0])))
              (\<lambda>warped.
            eye_blink_blur cv
              (if fgt m (literal 0.1)
               then map (map (map (\<lambda>v. astype_uint8 (np_clip
                      (fmul (Finite (real (unat v)))
                         (fadd (Finite 1) (fmul m (literal 0.05)))))))) warped
               else warped)
              (dict_get d ''eyeBlinkLeft'' (PInt 0)) (dict_get d ''eyeBlinkRight'' (PInt 0))))
       \<and> (d ''mouthOpen'' = Some (PFloat (literal 0.2)) \<longrightarrow>
          fst (inference cv self (PDict d)) =
            bind (head_rotation_warp cv ref
                    (dict_get d ''headRotation'' (PList [PInt 0, PInt 0, PInt 0])))
              (\<lambda>warped.
            eye_blink_blur cv
              (map (map (map (\<lambda>v. word_of_int
                 \<lfloor>max 0 (min 255 (real (unat v) * 1.01))\<rfloor>))) warped)
              (dict_get d ''eyeBlinkLeft'' (PInt 0)) (dict_get d ''eyeBlinkRight'' (PInt 0))))
       \<and> (d ''mouthOpen'' = Some (PInt n) \<and> \<bar>n\<bar> < 2 ^ 53 \<longrightarrow>
          fst (inference cv self (PDict d)) =
            fst (inference cv self (PDict (d(''mouthOpen'' \<mapsto> PFloat (Finite (of_int n)))))))
       \<and> (\<forall>x::real. astype_uint8 (np_clip (Finite x)) = word_of_int \<lfloor>max 0 (min 255 x)\<rfloor>
              \<and> unat (word_of_int \<lfloor>max 0 (min 255 x)\<rfloor> :: 8 word)
                  = nat \<lfloor>max 0 (min 255 x)\<rfloor>)"
proof (intro conjI impI allI)
  {
    assume mo: "d ''mouthOpen'' = Some (PFloat m)"
    show "fst (inference cv self (PDict d)) =
            bind (head_rotation_warp cv ref
                    (dict_get d ''headRotation'' (PList [PInt 0, PInt 0, PInt 0])))
              (\<lambda>warped.
            eye_blink_blur cv
              (if fgt m (literal 0.1)
               then map (map (map (\<lambda>v. astype_uint8 (np_clip
                      (fmul (Finite (real (unat v)))
                         (fadd (Finite 1) (fmul m (literal 0.05)))))))) warped
               else warped)
              (dict_get d ''eyeBlinkLeft'' (PInt 0)) (dict_get d ''eyeBlinkRight'' (PInt 0)))"
      using mouth_brightness_float [of _ m]
      by (simp add: inference_steps [OF assms] dict_get_def mo bind_simps)
  }
  {
    assume mo: "d ''mouthOpen'' = Some (PFloat (literal 0.2))"
    have gt: "fgt (literal (1 / 5)) (literal (1 / 10))"
      by (simp add: literal_0_2 literal_0_1)
    have "mouth_brightness img (PFloat (literal (1 / 5))) =
        Inr (map (map (map (\<lambda>v. word_of_int
               \<lfloor>max 0 (min 255 (real (unat v) * 1.01))\<rfloor>))) img)" for img
      using mouth_brightness_float [of img "literal (1 / 5)"] gt scale_by_1_01
      by (simp add: brightness_0_2)
    then show "fst (inference cv self (PDict d)) =
            bind (head_rotation_warp cv ref
                    (dict_get d ''headRotation'' (PList [PInt 0, PInt 0, PInt 0])))
              (\<lambda>warped.
            eye_blink_blur cv
              (map (map (map (\<lambda>v. word_of_int
                 \<lfloor>max 0 (min 255 (real (unat v) * 1.01))\<rfloor>))) warped)
              (dict_get d ''eyeBlinkLeft'' (PInt 0)) (dict_get d ''eyeBlinkRight'' (PInt 0)))"
      by (simp add: inference_steps [OF assms] dict_get_def mo bind_simps)
  }
  {
    assume a: "d ''mouthOpen'' = Some (PInt n) \<and> \<bar>n\<bar> < 2 ^ 53"
    then have "mouth_brightness img (PInt n) = mouth_brightness img (PFloat (Finite (of_int n)))"
      for img by (intro mouth_brightness_int) simp
    then show "fst (inference cv self (PDict d)) =
            fst (inference cv self (PDict (d(''mouthOpen'' \<mapsto> PFloat (Finite (of_int n))))))"
      using a by (simp add: inference_steps [OF assms] dict_get_def)
  }
  show "astype_uint8 (np_clip (Finite x)) = word_of_int \<lfloor>max 0 (min 255 x)\<rfloor>" for x
    by (rule clip_cast)
  show "unat (word_of_int \<lfloor>max 0 (min 255 x)\<rfloor> :: 8 word) = nat \<lfloor>max 0 (min 255 x)\<rfloor>"
    for x :: real
    by (rule uint8_of_clamped)
qed

theorem mouth_brightness_formula_witness:
  "reference_image (with_reference [[[200, 120, 240]]]) = Some [[[200, 120, 240]]]
   \<and> fst (inference cv_standin (with_reference [[[200, 120, 240]]])
        (PDict [''mouthOpen'' \<mapsto> PFloat (literal 0.5)])) = Inr [[[204, 122, 245]]]
   \<and> fst (inference cv_standin (with_reference [[[100, 200, 255]]])
        (PDict [''mouthOpen'' \<mapsto> PFloat (literal 0.2)])) = Inr [[[101, 202, 255]]]
   \<and> fst (inference cv_standin (with_reference [[[100, 200, 255]]])
        (PDict [''mouthOpen'' \<mapsto> PFloat (literal 0.1)])) = Inr [[[100, 200, 255]]]
   \<and> fst (inference cv_standin (with_reference [[[100, 200, 255]]])
        (PDict [''mouthOpen'' \<mapsto> PInt 1])) = Inr [[[105, 210, 255]]]"
proof -
  have z: "is_zero (PInt 0)" by (simp add: is_zero_def)
  note ev = dict_get_def standin_warp_zero [OF z z] eye_blink_blur_zero [OF z z] bind_simps
    literal_0_5 literal_0_1 literal_0_05 literal_0_2
    product_0_5 brightness_0_5 scaled_200_0_5 scaled_120_0_5 scaled_240_0_5
    product_1 brightness_1 scaled_100_1 scaled_200_1 scaled_255_1 py_int_def
  have a: "fst (inference cv_standin (with_reference [[[200, 120, 240]]])
        (PDict [''mouthOpen'' \<mapsto> PFloat (literal 0.5)])) = Inr [[[204, 122, 245]]]"
    using mouth_brightness_formula [OF reference_with_reference [of "[[[200, 120, 240]]]"],
        where d = "[''mouthOpen'' \<mapsto> PFloat (literal 0.5)]" and m = "literal 0.5"
          and cv = cv_standin and n = 0]
    by (simp add: ev del: fmul.simps fadd.simps)
  have b: "fst (inference cv_standin (with_reference [[[100, 200, 255]]])
        (PDict [''mouthOpen'' \<mapsto> PFloat (literal 0.2)])) = Inr [[[101, 202, 255]]]"
    using mouth_brightness_formula [OF reference_with_reference [of "[[[100, 200, 255]]]"],
        where d = "[''mouthOpen'' \<mapsto> PFloat (literal 0.2)]" and m = "Finite 0"
          and cv = cv_standin and n = 0]
    by (simp add: ev del: fmul.simps fadd.simps)
  have c: "fst (inference cv_standin (with_reference [[[100, 200, 255]]])
        (PDict [''mouthOpen'' \<mapsto> PFloat (literal 0.1)])) = Inr [[[100, 200, 255]]]"
    using mouth_brightness_formula [OF reference_with_reference [of "[[[100, 200, 255]]]"],
        where d = "[''mouthOpen'' \<mapsto> PFloat (literal 0.1)]" and m = "literal 0.1"
          and cv = cv_standin and n = 0]
    by (simp add: ev del: fmul.simps fadd.simps)
  have d: "fst (inference cv_standin (with_reference [[[100, 200, 255]]])
        (PDict [''mouthOpen'' \<mapsto> PInt 1])) = Inr [[[105, 210, 255]]]"
    using mouth_brightness_formula [OF reference_with_reference [of "[[[100, 200, 255]]]"],
        where d = "[''mouthOpen'' \<mapsto> PInt 1]" and m = "Finite 1"
          and cv = cv_standin and n = 1]
      mouth_brightness_formula [OF reference_with_reference [of "[[[100, 200, 255]]]"],
        where d = "[''mouthOpen'' \<mapsto> PFloat (Finite 1)]" and m = "Finite 1"
          and cv = cv_standin and n = 1]
    by (simp add: ev del: fmul.simps fadd.simps)
  show ?thesis using a b c d by (simp add: reference_with_reference)
qed

text \<open>
  C7. \<open>inference\<close> leaves the pipeline as it found it, and so does any sequence of
  \<open>inference\<close> calls; a call made after such a sequence returns what it returns
  before it; and what a call returns is determined by the stored reference and the
  motion parameters alone.
\<close>

theorem inference_stateless:
  "snd (inference cv self m) = self
   \<and> snd (run_inferences cv self ms) = self
   \<and> inference cv (snd (run_inferences cv self ms)) m = inference cv self m
   \<and> fst (inference cv self m) =
       (case reference_image self of
          None \<Rightarrow> Inl (ValueError ''Reference image not set'')
        | Some ref \<Rightarrow> synthesize cv ref m)"
proof (intro conjI)
  show "snd (inference cv self m) = self"
    by (rule inference_state)
  show after: "snd (run_inferences cv self ms) = self"
    by (rule run_inferences_state)
  show "inference cv (snd (run_inferences cv self ms)) m = inference cv self m"
    by (simp only: after)
  show "fst (inference cv self m) =
       (case reference_image self of
          None \<Rightarrow> Inl (ValueError ''Reference image not set'')
        | Some ref \<Rightarrow> synthesize cv ref m)"
    by (cases "reference_image self") (simp_all add: inference_def)
qed

theorem inference_stateless_witness:
  "inference cv_standin
     (snd (run_inferences cv_standin
            ((init :: nat LivePortraitPipeline)\<lparr>reference_image := Some small_image\<rparr>)
            [PDict [''mouthOpen'' \<mapsto> PInt 1], zero_motion, PNone]))
     zero_motion
   = (Inr small_image, init\<lparr>reference_image := Some small_image\<rparr>)"
proof -
  have "synthesize cv_standin small_image zero_motion = Inr small_image"
    by (rule synthesize_zero_standin)
  then have "inference cv_standin
               ((init :: nat LivePortraitPipeline)\<lparr>reference_image := Some small_image\<rparr>)
               zero_motion
             = (Inr small_image, init\<lparr>reference_image := Some small_image\<rparr>)"
    by (simp add: inference_def)
  then show ?thesis
    using inference_stateless [of cv_standin
        "(init :: nat LivePortraitPipeline)\<lparr>reference_image := Some small_image\<rparr>"
        zero_motion "[PDict [''mouthOpen'' \<mapsto> PInt 1], zero_motion, PNone]"]
    by simp
qed

text \<open>
  C8. With no reference stored, \<open>inference\<close> raises its \<open>ValueError\<close> with the
  message \<open>Reference image not set\<close> for every argument and leaves the pipeline as
  it is. For a \<open>motion\<close> message received while the server or its pipeline holds no
  reference, the reply is the \<open>status\<close> message or the \<open>error\<close> message carrying
  that exception, and the state of the server is unchanged.
\<close>

theorem no_reference_reply:
  "(reference_image self = None
      \<longrightarrow> inference cv self m = (Inl (ValueError ''Reference image not set''), self))
   \<and> (d ''type'' = Some (PStr ''motion'')
        \<and> (global_reference_image srv = None
            \<or> (\<exists>p. pipeline srv = Some p \<and> reference_image p = None))
       \<longrightarrow> websocket_message cv encode srv (Inr (PDict d))
             = (Inr [Status ''Pipeline not ready or reference not loaded''], srv)
           \<or> websocket_message cv encode srv (Inr (PDict d))
             = (Inr [Error (ValueError ''Reference image not set'')], srv))"
proof (intro conjI impI)
  assume "reference_image self = None"
  then show "inference cv self m = (Inl (ValueError ''Reference image not set''), self)"
    by (simp add: inference_def)
next
  assume a: "d ''type'' = Some (PStr ''motion'')
        \<and> (global_reference_image srv = None
            \<or> (\<exists>p. pipeline srv = Some p \<and> reference_image p = None))"
  have "fst (websocket_message cv encode srv (Inr (PDict d)))
             = Inr [Status ''Pipeline not ready or reference not loaded'']
        \<or> fst (websocket_message cv encode srv (Inr (PDict d)))
             = Inr [Error (ValueError ''Reference image not set'')]"
    using a
    by (auto simp: websocket_message_def py_get_def dict_get_def inference_def bind_simps
        split: option.splits)
  then show "websocket_message cv encode srv (Inr (PDict d))
             = (Inr [Status ''Pipeline not ready or reference not loaded''], srv)
           \<or> websocket_message cv encode srv (Inr (PDict d))
             = (Inr [Error (ValueError ''Reference image not set'')], srv)"
    using websocket_message_state [of cv encode srv "Inr (PDict d)"]
    by (metis prod.collapse)
qed

theorem no_reference_reply_witness:
  "reference_image (init :: nat LivePortraitPipeline) = None
   \<and> inference cv_standin (init :: nat LivePortraitPipeline) zero_motion
       = (Inl (ValueError ''Reference image not set''), init)
   \<and> websocket_message cv_standin jpeg_standin
        (ready_server\<lparr>pipeline := Some (init\<lparr>is_ready := True\<rparr>)\<rparr>)
        (Inr (PDict [''type'' \<mapsto> PStr ''motion'', ''params'' \<mapsto> zero_motion]))
       = (Inr [Error (ValueError ''Reference image not set'')],
          ready_server\<lparr>pipeline := Some (init\<lparr>is_ready := True\<rparr>)\<rparr>)
   \<and> websocket_message cv_standin jpeg_standin
        (ready_server\<lparr>global_reference_image := None\<rparr>)
        (Inr (PDict [''type'' \<mapsto> PStr ''motion'', ''params'' \<mapsto> zero_motion]))
       = (Inr [Status ''Pipeline not ready or reference not loaded''],
          ready_server\<lparr>global_reference_image := None\<rparr>)"
proof -
  let ?d = "[''type'' \<mapsto> PStr ''motion'', ''params'' \<mapsto> zero_motion]"
  let ?s1 = "ready_server\<lparr>pipeline := Some (init\<lparr>is_ready := True\<rparr>)\<rparr>"
  let ?s2 = "ready_server\<lparr>global_reference_image := None\<rparr>"
  have n: "reference_image (init :: nat LivePortraitPipeline) = None"
    by (simp add: init_def)
  have h1: "?d ''type'' = Some (PStr ''motion'')
        \<and> (global_reference_image ?s1 = None
            \<or> (\<exists>p. pipeline ?s1 = Some p \<and> reference_image p = None))"
    by (simp add: init_def)
  have h2: "?d ''type'' = Some (PStr ''motion'')
        \<and> (global_reference_image ?s2 = None
            \<or> (\<exists>p. pipeline ?s2 = Some p \<and> reference_image p = None))"
    by simp
  have e1: "fst (websocket_message cv_standin jpeg_standin ?s1 (Inr (PDict ?d)))
              \<noteq> Inr [Status ''Pipeline not ready or reference not loaded'']"
    by (simp add: websocket_message_def py_get_def dict_get_def ready_server_def init_def inference_def
        bind_simps)
  have e2: "fst (websocket_message cv_standin jpeg_standin ?s2 (Inr (PDict ?d)))
              \<noteq> Inr [Error (ValueError ''Reference image not set'')]"
    by (simp add: websocket_message_def py_get_def dict_get_def ready_server_def init_def)
  from no_reference_reply [of "init :: nat LivePortraitPipeline" cv_standin zero_motion ?d ?s1
      jpeg_standin] n h1 e1
  have a: "inference cv_standin (init :: nat LivePortraitPipeline) zero_motion
       = (Inl (ValueError ''Reference image not set''), init)
     \<and> websocket_message cv_standin jpeg_standin ?s1 (Inr (PDict ?d))
       = (Inr [Error (ValueError ''Reference image not set'')], ?s1)"
    by auto
  from no_reference_reply [of "init :: nat LivePortraitPipeline" cv_standin zero_motion ?d ?s2
      jpeg_standin] h2 e2
  have b: "websocket_message cv_standin jpeg_standin ?s2 (Inr (PDict ?d))
       = (Inr [Status ''Pipeline not ready or reference not loaded''], ?s2)"
    by auto
  show ?thesis using n a b by simp
qed

text \<open>
  C10. \<open>inference\<close> does not depend on \<open>smile\<close>: two motion records that differ at
  the key \<open>smile\<close> only, in its value or in its presence, give the same result and
  the same state.
\<close>

theorem smile_independent:
  "inference cv self (PDict (d(''smile'' := a))) = inference cv self (PDict (d(''smile'' := b)))"
  by (simp add: inference_def synthesize_def py_get_def dict_get_def bind_simps split: option.splits)

theorem smile_independent_witness:
  "inference cv_standin ((init :: nat LivePortraitPipeline)\<lparr>reference_image := Some small_image\<rparr>)
     (PDict [''mouthOpen'' \<mapsto> PInt 0, ''smile'' \<mapsto> PInt 1])
   = inference cv_standin ((init :: nat LivePortraitPipeline)\<lparr>reference_image := Some small_image\<rparr>)
       (PDict [''mouthOpen'' \<mapsto> PInt 0, ''smile'' \<mapsto> PStr ''wide''])"
  using smile_independent [of cv_standin
      "(init :: nat LivePortraitPipeline)\<lparr>reference_image := Some small_image\<rparr>"
      "[''mouthOpen'' \<mapsto> PInt 0]" "Some (PInt 1)" "Some (PStr ''wide'')"]
  by simp

end
